theory Spec2Isabelle
  imports Complex_Main "HOL-Library.Sublist"
begin

section \<open>Python values\<close>

text \<open>
  A Python \<open>str\<close> is a sequence of Unicode code points, and \<open>len\<close> counts code points.
  The model keeps that: a string is the list of its code points. \<open>py\<close> turns an ASCII
  literal into such a list. A Python \<open>float\<close> is modelled by a real number, so the
  arithmetic below is the exact arithmetic that the floating-point operations round.
\<close>

type_synonym pystr = "nat list"

definition py :: "string \<Rightarrow> pystr" where
  "py cs = map of_char cs"

text \<open>An exception that leaves a function, with what raised it.\<close>

datatype exn =
  BadAttribute pystr
| Raised pystr

section \<open>The 4D state: \<open>SpacetimeState\<close>\<close>

text \<open>
  The dataclass has the fields \<open>w\<close> (logic), \<open>x\<close> (empathy), \<open>y\<close> (creativity),
  \<open>z\<close> (memory), \<open>energy\<close> and \<open>coherence\<close>. The four one-letter fields carry their
  meaning in the record's field names.
\<close>

record SpacetimeState =
  w_logic :: real
  x_empathy :: real
  y_creativity :: real
  z_memory :: real
  energy :: real
  coherence :: real

definition SpacetimeState_init :: SpacetimeState where
  "SpacetimeState_init =
     \<lparr>w_logic = 0.55, x_empathy = 0.55, y_creativity = 0.60, z_memory = 0.62,
      energy = 0.85, coherence = 0.80\<rparr>"

text \<open>
  \<open>getattr\<close> and \<open>setattr\<close> address a field by its name. The six data fields are the
  names on which the arithmetic of \<open>rotate_plane\<close> goes through; for any other string
  \<open>getattr\<close> raises \<open>AttributeError\<close>, or returns a method or another object on which
  the multiplication by a float raises \<open>TypeError\<close>.
\<close>

datatype attr = W | X | Y | Z | Energy | Coherence

definition attr_of_name :: "pystr \<Rightarrow> attr option" where
  "attr_of_name n =
     (if n = py ''w'' then Some W
      else if n = py ''x'' then Some X
      else if n = py ''y'' then Some Y
      else if n = py ''z'' then Some Z
      else if n = py ''energy'' then Some Energy
      else if n = py ''coherence'' then Some Coherence
      else None)"

fun getattr :: "SpacetimeState \<Rightarrow> attr \<Rightarrow> real" where
  "getattr s W = w_logic s"
| "getattr s X = x_empathy s"
| "getattr s Y = y_creativity s"
| "getattr s Z = z_memory s"
| "getattr s Energy = energy s"
| "getattr s Coherence = coherence s"

fun setattr :: "SpacetimeState \<Rightarrow> attr \<Rightarrow> real \<Rightarrow> SpacetimeState" where
  "setattr s W v = s\<lparr>w_logic := v\<rparr>"
| "setattr s X v = s\<lparr>x_empathy := v\<rparr>"
| "setattr s Y v = s\<lparr>y_creativity := v\<rparr>"
| "setattr s Z v = s\<lparr>z_memory := v\<rparr>"
| "setattr s Energy v = s\<lparr>energy := v\<rparr>"
| "setattr s Coherence v = s\<lparr>coherence := v\<rparr>"

definition as_vector :: "SpacetimeState \<Rightarrow> real list" where
  "as_vector s = [w_logic s, x_empathy s, y_creativity s, z_memory s]"

text \<open>\<open>clamp\<close>: the loop over the six attribute names, each set to \<open>max(0.0, min(1.0, v))\<close>.\<close>

definition clamp :: "SpacetimeState \<Rightarrow> SpacetimeState" where
  "clamp s =
     fold (\<lambda>a t. setattr t a (max 0 (min 1 (getattr t a))))
       [W, X, Y, Z, Energy, Coherence] s"

text \<open>
  \<open>soften\<close>: the loop over the four dimensions with their neutral values, then the
  coherence. There is no clamp in it.
\<close>

definition soften :: "real \<Rightarrow> SpacetimeState \<Rightarrow> SpacetimeState" where
  "soften factor s =
     (let t = fold (\<lambda>(a, neutral) t. setattr t a (getattr t a + (neutral - getattr t a) * factor))
                [(W, 0.55), (X, 0.55), (Y, 0.60), (Z, 0.62)] s
      in t\<lparr>coherence := coherence t + (0.85 - coherence t) * factor\<rparr>)"

text \<open>
  \<open>rotate_plane\<close> on two fields: both values are read before either is written, the
  second write comes after the first (it wins when both names are the same), and the
  state is clamped at the end.
\<close>

definition rotate_attrs :: "attr \<Rightarrow> attr \<Rightarrow> real \<Rightarrow> SpacetimeState \<Rightarrow> SpacetimeState" where
  "rotate_attrs a b theta s =
     (let cos_t = cos theta;
          sin_t = sin theta;
          va = getattr s a;
          vb = getattr s b;
          s1 = setattr s a (va * cos_t - vb * sin_t);
          s2 = setattr s1 b (va * sin_t + vb * cos_t)
      in clamp s2)"

text \<open>
  \<open>rotate_plane\<close> as it is called, with attribute names: a name that is not a data
  field raises before anything is written.
\<close>

definition rotate_plane :: "pystr \<Rightarrow> pystr \<Rightarrow> real \<Rightarrow> SpacetimeState \<Rightarrow> exn + SpacetimeState" where
  "rotate_plane a b theta s =
     (case attr_of_name a of
        None \<Rightarrow> Inl (BadAttribute a)
      | Some fa \<Rightarrow>
          (case attr_of_name b of
             None \<Rightarrow> Inl (BadAttribute b)
           | Some fb \<Rightarrow> Inr (rotate_attrs fa fb theta s)))"

text \<open>A call of one of the two operations, and the states seen after each call of a sequence.
  A call that raises leaves the state as it was.\<close>

datatype call = Relax real | RotatePlane pystr pystr real

fun apply_call :: "call \<Rightarrow> SpacetimeState \<Rightarrow> exn + SpacetimeState" where
  "apply_call (Relax factor) s = Inr (soften factor s)"
| "apply_call (RotatePlane a b theta) s = rotate_plane a b theta s"

fun states_after :: "call list \<Rightarrow> SpacetimeState \<Rightarrow> SpacetimeState list" where
  "states_after [] s = []"
| "states_after (c # cs) s =
     (case apply_call c s of
        Inl e \<Rightarrow> s # states_after cs s
      | Inr t \<Rightarrow> t # states_after cs t)"

definition in_unit :: "real \<Rightarrow> bool" where
  "in_unit v = (0 \<le> v \<and> v \<le> 1)"

definition in_range :: "SpacetimeState \<Rightarrow> bool" where
  "in_range s =
     (in_unit (w_logic s) \<and> in_unit (x_empathy s) \<and> in_unit (y_creativity s) \<and>
      in_unit (z_memory s) \<and> in_unit (energy s) \<and> in_unit (coherence s))"

fun gentle :: "call \<Rightarrow> bool" where
  "gentle (Relax factor) = (0 \<le> factor \<and> factor \<le> 1)"
| "gentle (RotatePlane a b theta) = True"

section \<open>String operations\<close>

text \<open>The newline character, and the string methods the source uses.\<close>

definition nl :: pystr where
  "nl = [10]"

fun starts_with :: "pystr \<Rightarrow> pystr \<Rightarrow> bool" where
  "starts_with [] ys = True"
| "starts_with (c # cs) [] = False"
| "starts_with (c # cs) (d # ds) = (c = d \<and> starts_with cs ds)"

text \<open>\<open>sub in s\<close>: the substring test.\<close>

fun contains :: "pystr \<Rightarrow> pystr \<Rightarrow> bool" where
  "contains sub [] = (sub = [])"
| "contains sub (c # cs) = (starts_with sub (c # cs) \<or> contains sub cs)"

text \<open>\<open>sep.join(parts)\<close>.\<close>

fun join :: "pystr \<Rightarrow> pystr list \<Rightarrow> pystr" where
  "join sep [] = []"
| "join sep [p] = p"
| "join sep (p # q # ps) = p @ sep @ join sep (q # ps)"

text \<open>
  \<open>str.isspace\<close> on one code point: the characters that \<open>str.strip()\<close> removes when
  it is called without an argument.
\<close>

definition py_isspace :: "nat \<Rightarrow> bool" where
  "py_isspace c =
     ((9 \<le> c \<and> c \<le> 13) \<or> (28 \<le> c \<and> c \<le> 32) \<or> c = 133 \<or> c = 160 \<or> c = 5760
      \<or> (8192 \<le> c \<and> c \<le> 8202) \<or> c = 8232 \<or> c = 8233 \<or> c = 8239 \<or> c = 8287
      \<or> c = 12288)"

text \<open>\<open>strip\<close> removes the matching characters at both ends.\<close>

definition strip_with :: "(nat \<Rightarrow> bool) \<Rightarrow> pystr \<Rightarrow> pystr" where
  "strip_with p s = rev (dropWhile p (rev (dropWhile p s)))"

definition py_strip :: "pystr \<Rightarrow> pystr" where
  "py_strip s = strip_with py_isspace s"

definition py_strip_chars :: "pystr \<Rightarrow> pystr \<Rightarrow> pystr" where
  "py_strip_chars chars s = strip_with (\<lambda>c. c \<in> set chars) s"

text \<open>
  The slice \<open>xs[i:]\<close>: a negative \<open>i\<close> counts from the end (and stops at the start),
  any other \<open>i\<close> from the start, so that \<open>xs[-0:]\<close> is all of \<open>xs\<close>.
\<close>

definition slice_from :: "int \<Rightarrow> 'a list \<Rightarrow> 'a list" where
  "slice_from i xs =
     (if i < 0 then drop (nat (max 0 (int (length xs) + i))) xs else drop (nat i) xs)"

text \<open>The slice \<open>xs[:n]\<close> for \<open>n \<ge> 0\<close>.\<close>

definition slice_to :: "nat \<Rightarrow> 'a list \<Rightarrow> 'a list" where
  "slice_to n xs = take n xs"

definition last_n :: "nat \<Rightarrow> 'a list \<Rightarrow> 'a list" where
  "last_n n xs = slice_from (- int n) xs"

section \<open>The memory system: \<open>MemoryItem\<close> and \<open>MemoryStore\<close>\<close>

record MemoryItem =
  ts :: pystr
  role :: pystr
  content :: pystr
  importance :: real

text \<open>
  A line of the log file, by what the loop body of \<open>_load_from_disk\<close> makes of it once
  the file iteration has yielded it:
  \<^item> \<open>Blank\<close>: nothing is left after \<open>line.strip()\<close>, the loop continues;
  \<^item> \<open>Malformed\<close>: the inner \<open>try\<close> raises (\<open>json.loads\<close> fails, or the value is
    not an object with exactly the keys \<open>ts\<close>, \<open>role\<close>, \<open>content\<close>, \<open>importance\<close>,
    so that \<open>MemoryItem(**raw)\<close> fails), the loop continues;
  \<^item> \<open>Entry item\<close>: the line is the JSON object of \<open>item\<close>, three strings and a
    number. This is the text that \<open>json.dumps(item.to_json())\<close> writes, and
    \<open>json.loads\<close> gives the same four values back.
  An object with the four keys and values of other JSON types is not a line of this model.
\<close>

datatype line = Blank | Malformed | Entry MemoryItem

text \<open>
  The log file is a sequence of bytes; the model keeps what the code can observe of it:
  \<^item> \<open>full_lines\<close>: the lines that end with a newline;
  \<^item> \<open>open_tail\<close>: the text after the last newline, when there is some: the line it
    is read as, and, for each item, the line that results when the JSON object of the
    item and a newline are written directly after it (the code appends without looking
    at the end of the file);
  \<^item> \<open>read_limit\<close>: \<open>None\<close> when the file can be read to its end; \<open>Some k\<close> when
    opening or reading it raises after the iteration has yielded \<open>k\<close> lines (the file
    cannot be opened, or holds bytes that are not valid UTF-8). The exception leaves the
    loop and is caught by the outer \<open>except\<close>: the rest of the file is not loaded.
  The file itself is \<open>None\<close> while it does not exist.
\<close>

record logfile =
  full_lines :: "line list"
  open_tail :: "(line \<times> (MemoryItem \<Rightarrow> line)) option"
  read_limit :: "nat option"

definition new_file :: logfile where
  "new_file = \<lparr>full_lines = [], open_tail = None, read_limit = None\<rparr>"

text \<open>The lines that the iteration over the file yields before it ends or raises.\<close>

definition all_lines :: "logfile \<Rightarrow> line list" where
  "all_lines f = full_lines f @ (case open_tail f of None \<Rightarrow> [] | Some (l, glued) \<Rightarrow> [l])"

definition readable_lines :: "logfile \<Rightarrow> line list" where
  "readable_lines f =
     (case read_limit f of
        None \<Rightarrow> all_lines f
      | Some k \<Rightarrow> take k (all_lines f))"

text \<open>
  The store: the capacities of the two deques, the three tiers, and the content of the
  file at \<open>file_path\<close>.
\<close>

record MemoryStore =
  max_short :: nat
  max_mid :: nat
  short_term :: "MemoryItem list"
  mid_term :: "MemoryItem list"
  long_term :: "MemoryItem list"
  log_file :: "logfile option"

text \<open>\<open>append\<close> on a \<open>deque\<close> with \<open>maxlen\<close>: what no longer fits is dropped at the left.\<close>

definition deque_append :: "nat \<Rightarrow> 'a list \<Rightarrow> 'a \<Rightarrow> 'a list" where
  "deque_append maxlen xs v = (let ys = xs @ [v] in drop (length ys - maxlen) ys)"

text \<open>The body of the loop of \<open>_load_from_disk\<close>, for one line.\<close>

fun load_line :: "line \<Rightarrow> MemoryStore \<Rightarrow> MemoryStore" where
  "load_line Blank s = s"
| "load_line Malformed s = s"
| "load_line (Entry item) s =
     (if role item = py ''summary'' then
        s\<lparr>mid_term := deque_append (max_mid s) (mid_term s) item\<rparr>
      else if importance item \<ge> 0.7 then
        s\<lparr>long_term := long_term s @ [item]\<rparr>
      else
        s\<lparr>short_term := deque_append (max_short s) (short_term s) item\<rparr>)"

text \<open>
  \<open>_load_from_disk\<close>: nothing for a missing file; else the loop over the lines that can
  be read, the outer \<open>except\<close> dropping the exception that ends the reading.
\<close>

definition load_from_disk :: "MemoryStore \<Rightarrow> MemoryStore" where
  "load_from_disk s =
     (case log_file s of
        None \<Rightarrow> s
      | Some f \<Rightarrow> fold load_line (readable_lines f) s)"

definition empty_store :: "nat \<Rightarrow> nat \<Rightarrow> logfile option \<Rightarrow> MemoryStore" where
  "empty_store cap_short cap_mid f =
     \<lparr>max_short = cap_short, max_mid = cap_mid, short_term = [], mid_term = [],
      long_term = [], log_file = f\<rparr>"

text \<open>\<open>__init__\<close>: empty tiers, then the log is loaded.\<close>

definition MemoryStore_init :: "nat \<Rightarrow> nat \<Rightarrow> logfile option \<Rightarrow> MemoryStore" where
  "MemoryStore_init cap_short cap_mid f = load_from_disk (empty_store cap_short cap_mid f)"

text \<open>
  \<open>_append_disk\<close>: opening the file for appending creates a missing file; the JSON
  object of the item and a newline are written at the end. After a file that ends with a
  newline this is a new line holding the entry; after an unterminated last line the
  object is glued to that line. A failure of the write is caught and nothing is written.
  Whether the write succeeds is an input, \<open>write_ok\<close>.
\<close>

definition file_of :: "MemoryStore \<Rightarrow> logfile" where
  "file_of s = (case log_file s of None \<Rightarrow> new_file | Some f \<Rightarrow> f)"

definition appended_line :: "logfile \<Rightarrow> MemoryItem \<Rightarrow> line" where
  "appended_line f item =
     (case open_tail f of
        None \<Rightarrow> Entry item
      | Some (l, glued) \<Rightarrow> glued item)"

definition append_line :: "MemoryItem \<Rightarrow> logfile \<Rightarrow> logfile" where
  "append_line item f =
     f\<lparr>full_lines := full_lines f @ [appended_line f item], open_tail := None\<rparr>"

definition append_disk :: "bool \<Rightarrow> MemoryItem \<Rightarrow> MemoryStore \<Rightarrow> MemoryStore" where
  "append_disk write_ok item s =
     (if write_ok then s\<lparr>log_file := Some (append_line item (file_of s))\<rparr> else s)"

text \<open>The item that \<open>add\<close> constructs; \<open>now\<close> is \<open>datetime.utcnow().isoformat()\<close>.\<close>

definition new_item :: "pystr \<Rightarrow> pystr \<Rightarrow> pystr \<Rightarrow> real \<Rightarrow> MemoryItem" where
  "new_item now rl msg imp =
     \<lparr>ts = now, role = rl, content = msg, importance = max 0 (min 1 imp)\<rparr>"

text \<open>\<open>add\<close>: the routing looks at the argument \<open>importance\<close>, not at the clamped value.\<close>

definition add :: "bool \<Rightarrow> pystr \<Rightarrow> pystr \<Rightarrow> pystr \<Rightarrow> real \<Rightarrow> MemoryStore \<Rightarrow> MemoryStore" where
  "add write_ok now rl msg imp s =
     (let item = new_item now rl msg imp;
          s1 = (if rl = py ''summary'' then
                  s\<lparr>mid_term := deque_append (max_mid s) (mid_term s) item\<rparr>
                else if imp \<ge> 0.7 then
                  s\<lparr>long_term := long_term s @ [item]\<rparr>
                else
                  s\<lparr>short_term := deque_append (max_short s) (short_term s) item\<rparr>)
      in append_disk write_ok item s1)"

definition promote_summary :: "bool \<Rightarrow> pystr \<Rightarrow> pystr \<Rightarrow> real \<Rightarrow> MemoryStore \<Rightarrow> MemoryStore" where
  "promote_summary write_ok now msg weight s =
     add write_ok now (py ''summary'') msg (max weight 0.5) s"

text \<open>
  \<open>get_recall_snippet\<close>. \<open>random_sample\<close> stands for \<open>random.sample\<close>: the function
  receives the choice it makes. \<open>recall_blob\<close> is the joined text before it is cut.
\<close>

definition recall_blob :: "(MemoryItem list \<Rightarrow> nat \<Rightarrow> MemoryItem list) \<Rightarrow> MemoryStore \<Rightarrow> pystr" where
  "recall_blob random_sample s =
     (let long_samples =
            (if long_term s \<noteq> [] then random_sample (long_term s) (min 4 (length (long_term s)))
             else []);
          mid_samples = last_n 4 (mid_term s);
          short_samples = last_n 6 (short_term s);
          parts = map (\<lambda>it. py ''[LONG] '' @ content it) long_samples
                @ map (\<lambda>it. py ''[SUMMARY] '' @ content it) mid_samples
                @ map (\<lambda>it. py ''[RECENT] '' @ role it @ py '': '' @ content it) short_samples
      in join nl parts)"

definition get_recall_snippet ::
    "(MemoryItem list \<Rightarrow> nat \<Rightarrow> MemoryItem list) \<Rightarrow> int \<Rightarrow> MemoryStore \<Rightarrow> pystr" where
  "get_recall_snippet random_sample max_chars s =
     (let blob = recall_blob random_sample s;
          blob = (if int (length blob) > max_chars then slice_from (- max_chars) blob else blob)
      in py_strip blob)"







text \<open>The lines that the construction of a store over a file loads.\<close>

definition lines_read :: "logfile option \<Rightarrow> line list" where
  "lines_read f = (case f of None \<Rightarrow> [] | Some g \<Rightarrow> readable_lines g)"



definition tiers :: "MemoryStore \<Rightarrow> MemoryItem list \<times> MemoryItem list \<times> MemoryItem list" where
  "tiers s = (short_term s, mid_term s, long_term s)"

text \<open>The complete lines of the log file, none while the file does not exist.\<close>

definition log_lines :: "MemoryStore \<Rightarrow> line list" where
  "log_lines s = full_lines (file_of s)"


text \<open>A sampler, and a store with one short-term entry whose content ends in a space.\<close>

definition take_sample :: "MemoryItem list \<Rightarrow> nat \<Rightarrow> MemoryItem list" where
  "take_sample xs k = take k xs"

definition store_hello :: MemoryStore where
  "store_hello = add True (py ''t0'') (py ''user'') (py ''hello '') 0.4 (MemoryStore_init 32 64 None)"






section \<open>Reasoning utilities\<close>

text \<open>
  \<open>str.lower()\<close>. The source uses it only to look for ASCII keywords in the lowered
  text. The model lowers the ASCII letters; the two other code points whose lower case
  holds an ASCII letter (U+212A to \<open>k\<close>, U+0130 to \<open>i\<close> and a combining dot) cannot make
  or break a match with any keyword of the source.
\<close>

definition lower_cp :: "nat \<Rightarrow> nat" where
  "lower_cp c = (if 65 \<le> c \<and> c \<le> 90 then c + 32 else c)"

definition py_lower :: "pystr \<Rightarrow> pystr" where
  "py_lower s = map lower_cp s"

text \<open>\<open>any(k in text for k in keywords)\<close>.\<close>

definition any_in :: "pystr list \<Rightarrow> pystr \<Rightarrow> bool" where
  "any_in keywords s = list_ex (\<lambda>k. contains k s) keywords"

text \<open>\<open>s.index(sub)\<close>: the position of the first occurrence, \<open>None\<close> where Python raises.\<close>

fun py_index :: "pystr \<Rightarrow> pystr \<Rightarrow> nat option" where
  "py_index sub [] = (if sub = [] then Some 0 else None)"
| "py_index sub (c # cs) =
     (if starts_with sub (c # cs) then Some 0 else map_option Suc (py_index sub cs))"

text \<open>\<open>str(n)\<close> for a natural number.\<close>

fun str_nat :: "nat \<Rightarrow> pystr" where
  "str_nat n = (if n < 10 then [48 + n] else str_nat (n div 10) @ [48 + n mod 10])"

declare str_nat.simps [simp del]

text \<open>\<open>recursive_refine\<close>: the loop from pass \<open>i + 1\<close> on, and the chain.\<close>

fun refine_passes :: "nat \<Rightarrow> nat \<Rightarrow> pystr \<Rightarrow> pystr list" where
  "refine_passes i 0 current = []"
| "refine_passes i (Suc k) current =
     (let current = py ''Refine (pass '' @ str_nat (i + 1) @ py ''): '' @ current
      in current # refine_passes (i + 1) k current)"

definition recursive_refine :: "pystr \<Rightarrow> nat \<Rightarrow> pystr list" where
  "recursive_refine thought depth =
     (py ''Initial thought: '' @ thought) # refine_passes 0 depth thought"

definition build_multi_agent_prompt :: "pystr \<Rightarrow> pystr" where
  "build_multi_agent_prompt user_text =
     py ''You are RomanAI'' @ [39] @ py ''s inner council. Four internal voices will think about the user''
       @ [39] @ py ''s request:'' @ nl @
     nl @
     py ''[1] LOGICIAN: precise, step-by-step reasoning'' @ nl @
     py ''[2] EMPATH: focuses on feelings, tone, and support'' @ nl @
     py ''[3] CREATOR: imaginative, lateral ideas, analogies'' @ nl @
     py ''[4] SKEPTIC: checks for errors, risks, and coherence'' @ nl @
     nl @
     py ''User request:'' @ nl @
     [34, 34, 34] @ user_text @ [34, 34, 34] @ nl @
     nl @
     py ''For each voice, briefly outline their perspective in 2'' @ [8211] @ py ''4 bullet points.'' @ nl @
     py ''Then give a final integrated recommendation as ROMANAI_SUMMARY.'' @ nl"

definition build_self_eval_prompt :: "pystr \<Rightarrow> pystr \<Rightarrow> pystr" where
  "build_self_eval_prompt answer user_text =
     py ''You are RomanAI performing self-evaluation on your own answer.'' @ nl @
     nl @
     py ''User request:'' @ nl @
     [34, 34, 34] @ user_text @ [34, 34, 34] @ nl @
     nl @
     py ''Your draft answer:'' @ nl @
     [34, 34, 34] @ answer @ [34, 34, 34] @ nl @
     nl @
     py ''1) Briefly list 2'' @ [8211] @ py ''4 strengths.'' @ nl @
     py ''2) Briefly list 2'' @ [8211] @ py ''4 weaknesses or missing pieces.'' @ nl @
     py ''3) Provide an improved final answer as ROMANAI_FINAL, clear and helpful.'' @ nl"

section \<open>The engine: \<open>RomanAISpacetimeEngine\<close>\<close>

text \<open>
  A message is a pair of role and content. The injected \<open>llm_func\<close> maps a list of
  messages to a string or raises. Within one turn it is called on lists of messages that
  differ from each other, so a function of the messages also stands for a callable that
  keeps state.
\<close>

type_synonym message = "pystr \<times> pystr"

type_synonym llm = "message list \<Rightarrow> exn + pystr"

text \<open>
  What one turn takes from outside: the injected function, the clock reading and the
  outcome of the disk write for the first, second and third \<open>add\<close> of the turn, the
  choice of \<open>random.sample\<close>, and the text that the format \<open>:.2f\<close> gives for a float.
  The digits of that text depend on the binary value of the float, which the real number
  of the model does not determine (the float 0.575 is printed as 0.57), so the format is
  an input.
\<close>

record Env =
  env_llm :: llm
  env_clock :: "nat \<Rightarrow> pystr"
  env_disk_ok :: "nat \<Rightarrow> bool"
  env_sample :: "MemoryItem list \<Rightarrow> nat \<Rightarrow> MemoryItem list"
  env_fmt2f :: "real \<Rightarrow> pystr"

record Engine =
  name :: pystr
  state :: SpacetimeState
  memory :: MemoryStore
  enable_recursive :: bool
  enable_multi_agent :: bool
  enable_self_eval :: bool
  dialog_history :: "(pystr \<times> pystr) list"

text \<open>\<open>__init__\<close> with its defaults, over the log file \<open>f\<close>.\<close>

definition Engine_init :: "logfile option \<Rightarrow> Engine" where
  "Engine_init f =
     \<lparr>name = py ''RomanAI'', state = SpacetimeState_init, memory = MemoryStore_init 32 64 f,
      enable_recursive = True, enable_multi_agent = True, enable_self_eval = True,
      dialog_history = []\<rparr>"

definition update_state_from_interaction ::
    "pystr \<Rightarrow> pystr \<Rightarrow> SpacetimeState \<Rightarrow> exn + SpacetimeState" where
  "update_state_from_interaction user_text answer st =
     (let len = length answer;
          s1 = st\<lparr>energy := max 0.2 (min 1.0 (0.4 + real len / 2000.0))\<rparr>;
          s2 = (if contains (py ''sorry'') (py_lower answer) then
                  s1\<lparr>coherence := coherence s1 * 0.95\<rparr>
                else
                  s1\<lparr>coherence := min 1.0 (coherence s1 * 1.03)\<rparr>);
          s3 = (if any_in [py ''sad'', py ''scared'', py ''afraid'', py ''lonely'', py ''hurt'']
                     (py_lower user_text) then
                  s2\<lparr>x_empathy := min 1.0 (x_empathy s2 + 0.08)\<rparr>
                else s2);
          s4 = (if any_in [py ''idea'', py ''story'', py ''creative'', py ''brainstorm'']
                     (py_lower user_text) then
                  s3\<lparr>y_creativity := min 1.0 (y_creativity s3 + 0.08)\<rparr>
                else s3)
      in case rotate_plane (py ''w'') (py ''y'') 0.02 s4 of
           Inl e \<Rightarrow> Inl e
         | Inr s5 \<Rightarrow> Inr (soften 0.02 s5))"

definition build_state_description :: "Env \<Rightarrow> Engine \<Rightarrow> pystr" where
  "build_state_description env eng =
     (case as_vector (state eng) of
        [vw, vx, vy, vz] \<Rightarrow>
          py ''4D State '' @ [8212] @ py '' Logic(w): '' @ env_fmt2f env vw
          @ py '', Empathy(x): '' @ env_fmt2f env vx
          @ py '', Creativity(y): '' @ env_fmt2f env vy
          @ py '', Memory(z): '' @ env_fmt2f env vz
          @ py '', Energy: '' @ env_fmt2f env (energy (state eng))
          @ py '', Coherence: '' @ env_fmt2f env (coherence (state eng))
      | _ \<Rightarrow> [])"

definition build_system_prompt :: "Env \<Rightarrow> Engine \<Rightarrow> pystr" where
  "build_system_prompt env eng =
     (let recall_text = get_recall_snippet (env_sample env) 1200 (memory eng);
          st = build_state_description env eng
      in
     nl @
     py ''You are '' @ name eng @ py '', a local RomanAILabs assistant running as a Spacetime Engine v3.0.'' @ nl @
     py ''You reason in 4D vectors (Logic, Empathy, Creativity, Memory) and you always try'' @ nl @
     py ''to be honest, grounded, and helpful.'' @ nl @
     nl @
     py ''Your current internal state:'' @ nl @
     st @ nl @
     nl @
     py ''You have access to a small memory of prior interactions and facts:'' @ nl @
     nl @
     (if recall_text \<noteq> [] then recall_text else py ''[no stored memory yet]'') @ nl @
     nl @
     py ''GUIDELINES:'' @ nl @
     py ''- Be concise but not cold; supportive but not fake.'' @ nl @
     py ''- Use your Logic dimension to structure answers clearly.'' @ nl @
     py ''- Use your Empathy dimension to respect the user'' @ [39] @ py ''s emotional tone.'' @ nl @
     py ''- Use your Creativity dimension to offer new angles and ideas when useful.'' @ nl @
     py ''- Use your Memory dimension to stay consistent with prior facts you recall.'' @ nl @
     py ''- If you are uncertain, say so and focus on being useful anyway.'' @ nl @
     nl @
     py ''You are running locally and NEVER claim external access.'' @ nl)"

text \<open>\<open>_summarize_recent\<close>: \<open>None\<close> for an empty history or an empty answer of the model.\<close>

definition summarize_messages :: "Engine \<Rightarrow> message list" where
  "summarize_messages eng =
     (let convo_snippet =
            concat (map (\<lambda>(u, a). py ''User: '' @ u @ nl @ py ''RomanAI: '' @ a @ nl @ nl)
                      (last_n 6 (dialog_history eng)));
          prompt =
            py ''Summarize the following recent conversation between the user and RomanAI.'' @ nl @
            py ''Keep it under 6 bullet points, focusing on:'' @ nl @
            py ''- key user preferences'' @ nl @
            py ''- important facts'' @ nl @
            py ''- emotional tone'' @ nl @
            py ''- ongoing projects or goals'' @ nl @
            nl @
            py ''Conversation:'' @ nl @
            [34, 34, 34] @ convo_snippet @ [34, 34, 34] @ nl @
            nl @
            py ''Provide only the summary, no extra commentary.'' @ nl
      in [(py ''system'', py ''You are a concise summarizer for RomanAI'' @ [39] @ py ''s memory system.''),
          (py ''user'', prompt)])"

definition summarize_recent :: "Env \<Rightarrow> Engine \<Rightarrow> exn + pystr option" where
  "summarize_recent env eng =
     (if dialog_history eng = [] then Inr None
      else case env_llm env (summarize_messages eng) of
             Inl e \<Rightarrow> Inl e
           | Inr summary \<Rightarrow> Inr (if summary \<noteq> [] then Some (py_strip summary) else None))"

text \<open>
  The steps of \<open>generate_reply\<close>, in the order of the source.
  Step 3, the council: the traces of step 2 and, when the council is enabled, the answer
  of the model. An exception of the call leaves \<open>generate_reply\<close>.
\<close>

definition council_messages :: "pystr \<Rightarrow> message list" where
  "council_messages user_text =
     [(py ''system'', py ''You are internal-only reasoning. Do NOT talk as the assistant.''),
      (py ''user'', build_multi_agent_prompt user_text)]"

definition council_pass :: "Env \<Rightarrow> pystr \<Rightarrow> Engine \<Rightarrow> exn + pystr list" where
  "council_pass env user_text eng =
     (let internal_traces = (if enable_recursive eng then recursive_refine user_text 2 else [])
      in if enable_multi_agent eng then
           (case env_llm env (council_messages user_text) of
              Inl e \<Rightarrow> Inl e
            | Inr council_answer \<Rightarrow>
                Inr (internal_traces @ [py ''[COUNCIL]'' @ nl @ council_answer]))
         else Inr internal_traces)"

text \<open>Steps 1 and 4: the messages of the draft call.\<close>

definition draft_messages :: "Env \<Rightarrow> pystr \<Rightarrow> Engine \<Rightarrow> pystr list \<Rightarrow> message list" where
  "draft_messages env user_text eng internal_traces =
     (let messages = [(py ''system'', build_system_prompt env eng), (py ''user'', user_text)];
          messages =
            (if internal_traces \<noteq> [] then
               messages @
               [(py ''system'',
                 py ''Here are your internal reasoning notes. They are for YOUR mind only, ''
                 @ py ''not to be repeated verbatim:'' @ nl @ nl @ join (nl @ nl) internal_traces)]
             else messages)
      in messages @ [(py ''user'', user_text)])"

text \<open>Step 5: the final answer that the self-evaluation response gives, or the draft.\<close>

definition marker :: pystr where
  "marker = py ''ROMANAI_FINAL''"

definition extract_final :: "pystr \<Rightarrow> pystr \<Rightarrow> pystr" where
  "extract_final eval_text draft_answer =
     (case py_index marker eval_text of
        None \<Rightarrow> draft_answer
      | Some idx \<Rightarrow>
          (let improved = py_strip_chars (py '' :'' @ nl) (drop (idx + length marker) eval_text)
           in if length improved > 0 then py_strip improved else draft_answer))"

definition eval_messages :: "pystr \<Rightarrow> pystr \<Rightarrow> message list" where
  "eval_messages draft_answer user_text =
     [(py ''system'', py ''You are RomanAI performing self-reflection on your own answer.''),
      (py ''user'', build_self_eval_prompt draft_answer user_text)]"

definition self_eval_pass :: "Env \<Rightarrow> pystr \<Rightarrow> pystr \<Rightarrow> Engine \<Rightarrow> exn + pystr" where
  "self_eval_pass env user_text draft_answer eng =
     (if enable_self_eval eng then
        (case env_llm env (eval_messages draft_answer user_text) of
           Inl e \<Rightarrow> Inl e
         | Inr eval_text \<Rightarrow> Inr (extract_final eval_text draft_answer))
      else Inr draft_answer)"

text \<open>Steps 3 to 5 together: the final answer of the turn, or the exception.\<close>

definition final_answer_of :: "Env \<Rightarrow> pystr \<Rightarrow> Engine \<Rightarrow> exn + pystr" where
  "final_answer_of env user_text eng =
     (case council_pass env user_text eng of
        Inl e \<Rightarrow> Inl e
      | Inr internal_traces \<Rightarrow>
          (case env_llm env (draft_messages env user_text eng internal_traces) of
             Inl e \<Rightarrow> Inl e
           | Inr draft \<Rightarrow> self_eval_pass env user_text (py_strip draft) eng))"

text \<open>Step 6: the two memory entries of the turn.\<close>

definition memory_write :: "Env \<Rightarrow> pystr \<Rightarrow> pystr \<Rightarrow> MemoryStore \<Rightarrow> MemoryStore" where
  "memory_write env user_text final_answer m =
     (let imp = (if any_in [py ''important'', py ''remember'', py ''my name'', py ''my birthday'',
                          py ''my project''] (py_lower user_text)
                 then 0.8 else 0.4);
          m1 = add (env_disk_ok env 0) (env_clock env 0) (py ''user'') user_text imp m
      in add (env_disk_ok env 1) (env_clock env 1) (py ''assistant'') final_answer (imp * 0.8) m1)"

text \<open>
  The summary hook: the test on the length of the history, and the \<open>try\<close> around the
  summarizer, whose exception is dropped.
\<close>

definition summary_hook :: "Env \<Rightarrow> Engine \<Rightarrow> Engine" where
  "summary_hook env eng =
     (if length (dialog_history eng) mod 6 = 0 then
        (case summarize_recent env eng of
           Inl e \<Rightarrow> eng
         | Inr None \<Rightarrow> eng
         | Inr (Some summary) \<Rightarrow>
             (if summary \<noteq> [] then
                eng\<lparr>memory :=
                      promote_summary (env_disk_ok env 2) (env_clock env 2) summary 0.7 (memory eng)\<rparr>
              else eng))
      else eng)"

definition generate_reply :: "Env \<Rightarrow> pystr \<Rightarrow> Engine \<Rightarrow> exn + pystr \<times> Engine" where
  "generate_reply env user_text eng =
     (case final_answer_of env user_text eng of
        Inl e \<Rightarrow> Inl e
      | Inr final_answer \<Rightarrow>
          (case update_state_from_interaction user_text final_answer (state eng) of
             Inl e \<Rightarrow> Inl e
           | Inr st \<Rightarrow>
               (let eng1 = eng\<lparr>state := st,
                              dialog_history :=
                                deque_append 64 (dialog_history eng) (user_text, final_answer)\<rparr>;
                    eng2 = eng1\<lparr>memory := memory_write env user_text final_answer (memory eng1)\<rparr>
                in Inr (final_answer, summary_hook env eng2))))"

text \<open>Consecutive turns on one engine instance, each with its environment and user text.\<close>

fun run_turns :: "(Env \<times> pystr) list \<Rightarrow> Engine \<Rightarrow> exn + Engine" where
  "run_turns [] eng = Inr eng"
| "run_turns ((env, user_text) # turns) eng =
     (case generate_reply env user_text eng of
        Inl e \<Rightarrow> Inl e
      | Inr (reply, eng1) \<Rightarrow> run_turns turns eng1)"

text \<open>The stub of the demo, \<open>fake_llm\<close>, which echoes the last user message.\<close>

definition fake_llm :: llm where
  "fake_llm msgs =
     (case filter (\<lambda>m. fst m = py ''user'') msgs of
        [] \<Rightarrow> Inl (Raised (py ''IndexError''))
      | m # ms \<Rightarrow>
          Inr (py ''(FAKE_LLM) I received your message: '' @ slice_to 200 (snd (last (m # ms)))
               @ py '' ...''))"

text \<open>The reply of a turn, without the engine.\<close>

definition reply_of :: "exn + pystr \<times> Engine \<Rightarrow> exn + pystr" where
  "reply_of r = map_sum id fst r"

definition empathy_of :: "exn + pystr \<times> Engine \<Rightarrow> exn + real" where
  "empathy_of r = map_sum id (\<lambda>p. x_empathy (state (snd p))) r"

text \<open>
  Environments for concrete turns: a fixed clock, disk writes that succeed, the sampler
  that takes the first entries, a stand-in for the format that prints two decimals of the
  real value, and as the injected function the stub of the demo, a function that always
  returns one self-evaluation text, or a function that always raises.
\<close>

definition two_decimals :: "real \<Rightarrow> pystr" where
  "two_decimals v =
     (let a = \<bar>v\<bar> * 100;
          f = nat \<lfloor>a\<rfloor>;
          frac = a - real f;
          n = (if frac < 1 / 2 then f else if 1 / 2 < frac then f + 1
               else if even f then f else f + 1)
      in (if v < 0 then py ''-'' else []) @ str_nat (n div 100) @ py ''.''
         @ [48 + (n mod 100) div 10, 48 + n mod 10])"

definition stub_env :: "llm \<Rightarrow> Env" where
  "stub_env f =
     \<lparr>env_llm = f, env_clock = (\<lambda>k. py ''2025-01-01T00:00:00''), env_disk_ok = (\<lambda>k. True),
      env_sample = take_sample, env_fmt2f = two_decimals\<rparr>"

definition echo_env :: Env where
  "echo_env = stub_env fake_llm"

definition final_env :: Env where
  "final_env = stub_env (\<lambda>msgs. Inr (py ''blah ROMANAI_FINAL: see items 1-3:''))"

definition down_env :: Env where
  "down_env = stub_env (\<lambda>msgs. Inl (Raised (py ''backend down'')))"

definition sad_text :: pystr where
  "sad_text = py ''I feel so sad and lonely today''"

text \<open>
  The words of the specification for the self-evaluation marker, to compare with
  \<open>extract_final\<close>: the text after the marker with the leading colons and whitespace
  removed.
\<close>

definition spec_leading_strip :: "pystr \<Rightarrow> pystr" where
  "spec_leading_strip s = dropWhile (\<lambda>c. c = 58 \<or> py_isspace c) s"

section \<open>Properties of the state operations\<close>

lemma clamp_fields:
  "w_logic (clamp s) = max 0 (min 1 (w_logic s))"
  "x_empathy (clamp s) = max 0 (min 1 (x_empathy s))"
  "y_creativity (clamp s) = max 0 (min 1 (y_creativity s))"
  "z_memory (clamp s) = max 0 (min 1 (z_memory s))"
  "energy (clamp s) = max 0 (min 1 (energy s))"
  "coherence (clamp s) = max 0 (min 1 (coherence s))"
  by (simp_all add: clamp_def)

lemma soften_fields:
  "w_logic (soften f s) = w_logic s + (0.55 - w_logic s) * f"
  "x_empathy (soften f s) = x_empathy s + (0.55 - x_empathy s) * f"
  "y_creativity (soften f s) = y_creativity s + (0.60 - y_creativity s) * f"
  "z_memory (soften f s) = z_memory s + (0.62 - z_memory s) * f"
  "energy (soften f s) = energy s"
  "coherence (soften f s) = coherence s + (0.85 - coherence s) * f"
  by (simp_all add: soften_def)

lemma in_unit_clamped: "in_unit (max 0 (min 1 v))"
  by (simp add: in_unit_def)

lemma clamp_in_unit_id: "in_unit v \<Longrightarrow> max 0 (min 1 v) = v"
  by (simp add: in_unit_def)

lemma in_range_clamp: "in_range (clamp s)"
  by (simp add: in_range_def clamp_fields in_unit_clamped)

lemma clamp_id: "in_range s \<Longrightarrow> clamp s = s"
  by (simp add: in_range_def clamp_def clamp_in_unit_id)

lemma relax_step_in_unit:
  assumes "in_unit v" and "in_unit n" and "0 \<le> f" and "f \<le> 1"
  shows "in_unit (v + (n - v) * f)"
proof -
  have eq: "v + (n - v) * f = (1 - f) * v + f * n"
    by (simp add: algebra_simps)
  have lo: "0 \<le> (1 - f) * v + f * n"
    using assms by (simp add: in_unit_def)
  have "(1 - f) * v \<le> 1 - f" and "f * n \<le> f"
    using assms by (simp_all add: in_unit_def mult_left_le)
  then have hi: "(1 - f) * v + f * n \<le> 1"
    by simp
  from lo hi show ?thesis
    by (simp add: eq in_unit_def)
qed

lemma in_range_soften:
  assumes "in_range s" and "0 \<le> f" and "f \<le> 1"
  shows "in_range (soften f s)"
proof -
  have n: "in_unit 0.55" "in_unit 0.60" "in_unit 0.62" "in_unit 0.85"
    by (simp_all add: in_unit_def)
  from assms n show ?thesis
    by (simp add: in_range_def soften_fields relax_step_in_unit)
qed

lemma in_range_rotate_attrs: "in_range (rotate_attrs a b theta s)"
  by (simp add: rotate_attrs_def Let_def in_range_clamp)

lemma in_range_apply_call:
  assumes "in_range s" and "gentle c" and "apply_call c s = Inr t"
  shows "in_range t"
proof (cases c)
  case (Relax f)
  with assms show ?thesis
    by (auto simp: in_range_soften)
next
  case (RotatePlane a b theta)
  with assms show ?thesis
    by (auto simp: rotate_plane_def in_range_rotate_attrs split: option.splits)
qed

text \<open>
  C1 (amended). From a state whose six scalars lie in [0,1], after each call of any finite
  sequence of \<open>relax(factor)\<close> calls with \<open>0 \<le> factor \<le> 1\<close> and of
  \<open>rotatePlane(axisA, axisB, theta)\<close> calls with arbitrary real angles, all six scalars
  lie in [0,1].
\<close>

theorem clamp_invariant_gentle:
  "in_range s \<Longrightarrow> \<forall>c \<in> set cs. gentle c \<Longrightarrow> \<forall>t \<in> set (states_after cs s). in_range t"
proof (induction cs arbitrary: s)
  case Nil
  show ?case by simp
next
  case (Cons c cs)
  show ?case
  proof (cases "apply_call c s")
    case (Inl e)
    with Cons show ?thesis by simp
  next
    case (Inr t)
    with Cons.prems have "in_range t"
      by (auto intro: in_range_apply_call)
    with Cons Inr show ?thesis by simp
  qed
qed

theorem clamp_invariant_gentle_witness:
  "in_range SpacetimeState_init
   \<and> gentle (Relax 0.05) \<and> gentle (RotatePlane (py ''w'') (py ''y'') 0)
   \<and> states_after [RotatePlane (py ''w'') (py ''y'') 0, Relax 0.05] SpacetimeState_init \<noteq> []
   \<and> in_range (last (states_after [RotatePlane (py ''w'') (py ''y'') 0, Relax 0.05]
        SpacetimeState_init))"
proof -
  let ?cs = "[RotatePlane (py ''w'') (py ''y'') 0, Relax 0.05]"
  have a: "in_range SpacetimeState_init"
    by (simp add: in_range_def in_unit_def SpacetimeState_init_def)
  have b: "\<forall>c \<in> set ?cs. gentle c"
    by simp
  have ne: "states_after ?cs SpacetimeState_init \<noteq> []"
    by (simp split: sum.splits)
  from clamp_invariant_gentle [OF a b] ne
  have "in_range (last (states_after ?cs SpacetimeState_init))"
    using last_in_set by blast
  with a ne show ?thesis by simp
qed

text \<open>
  C1 as stated fails: \<open>soften\<close> does not clamp. From the default state, \<open>relax(10)\<close>
  moves the coherence to 1.3; and a state that starts outside [0,1] stays outside under
  \<open>relax(0)\<close>.
\<close>

theorem clamp_invariant_counterexample:
  "coherence (last (states_after [Relax 10] SpacetimeState_init)) = 1.3
   \<and> \<not> in_range (last (states_after [Relax 10] SpacetimeState_init))
   \<and> \<not> in_range (last (states_after [Relax 0] (SpacetimeState_init\<lparr>w_logic := 2\<rparr>)))"
  by (simp add: soften_fields in_range_def in_unit_def SpacetimeState_init_def)

text \<open>
  C10. For a state whose six scalars all lie in [0,1]: \<open>relax(factor)\<close> leaves the energy
  unchanged for every factor, and \<open>rotatePlane(axisA, axisB, theta)\<close> leaves every scalar
  other than the two named axes unchanged for every angle.
\<close>

theorem relax_rotate_frame:
  "in_range s \<Longrightarrow>
     energy (soften factor s) = energy s
     \<and> (\<forall>t fa fb c. rotate_plane a b theta s = Inr t \<and> attr_of_name a = Some fa
          \<and> attr_of_name b = Some fb \<and> c \<noteq> fa \<and> c \<noteq> fb
          \<longrightarrow> getattr t c = getattr s c)"
proof (intro conjI allI impI)
  show "energy (soften factor s) = energy s"
    by (simp add: soften_fields)
next
  fix t fa fb c
  assume r: "in_range s"
    and h: "rotate_plane a b theta s = Inr t \<and> attr_of_name a = Some fa
          \<and> attr_of_name b = Some fb \<and> c \<noteq> fa \<and> c \<noteq> fb"
  then have t: "t = rotate_attrs fa fb theta s"
    by (auto simp: rotate_plane_def)
  from r have u: "in_unit (getattr s c)"
    by (cases c) (simp_all add: in_range_def)
  have "getattr t c = max 0 (min 1 (getattr s c))"
    using h unfolding t rotate_attrs_def Let_def
    by (cases c; cases fa; cases fb) (simp_all add: clamp_fields)
  with u show "getattr t c = getattr s c"
    by (simp add: clamp_in_unit_id)
qed

theorem relax_rotate_frame_witness:
  "in_range SpacetimeState_init
   \<and> energy (soften 7 SpacetimeState_init) = energy SpacetimeState_init
   \<and> (\<exists>t. rotate_plane (py ''w'') (py ''y'') 1 SpacetimeState_init = Inr t
        \<and> getattr t X = 0.55 \<and> getattr t Z = 0.62 \<and> getattr t Energy = 0.85
        \<and> getattr t Coherence = 0.80)"
proof -
  have a: "in_range SpacetimeState_init"
    by (simp add: in_range_def in_unit_def SpacetimeState_init_def)
  have w: "attr_of_name (py ''w'') = Some W" and y: "attr_of_name (py ''y'') = Some Y"
    by (simp_all add: attr_of_name_def py_def)
  obtain t where t: "rotate_plane (py ''w'') (py ''y'') 1 SpacetimeState_init = Inr t"
    by (simp add: rotate_plane_def w y)
  note f = relax_rotate_frame [OF a, of 7 "py ''w''" "py ''y''" 1]
  from f have e: "energy (soften 7 SpacetimeState_init) = energy SpacetimeState_init"
    by blast
  from f t w y have g: "\<And>c. c \<noteq> W \<Longrightarrow> c \<noteq> Y \<Longrightarrow> getattr t c = getattr SpacetimeState_init c"
    by blast
  have "getattr t X = 0.55" "getattr t Z = 0.62" "getattr t Energy = 0.85"
    "getattr t Coherence = 0.80"
    using g [of X] g [of Z] g [of Energy] g [of Coherence]
    by (simp_all add: SpacetimeState_init_def)
  with a e t show ?thesis by blast
qed

section \<open>Properties of the memory system\<close>

lemma clamp_threshold: "(0.7 \<le> max 0 (min 1 imp)) = (0.7 \<le> (imp::real))"
  by (auto simp: max_def min_def)

lemma add_as_load:
  "add write_ok now rl msg imp s =
     append_disk write_ok (new_item now rl msg imp) (load_line (Entry (new_item now rl msg imp)) s)"
  by (simp add: add_def Let_def new_item_def clamp_threshold)

lemma load_line_frame:
  "max_short (load_line l s) = max_short s"
  "max_mid (load_line l s) = max_mid s"
  "log_file (load_line l s) = log_file s"
  by (cases l; simp)+

lemma fold_load_frame:
  "max_short (fold load_line ls s) = max_short s"
  "max_mid (fold load_line ls s) = max_mid s"
  "log_file (fold load_line ls s) = log_file s"
  by (induction ls arbitrary: s; simp add: load_line_frame)+

lemma load_line_log_update:
  "load_line l (s\<lparr>log_file := f\<rparr>) = (load_line l s)\<lparr>log_file := f\<rparr>"
  by (cases l) simp_all

lemma fold_load_log_update:
  "fold load_line ls (s\<lparr>log_file := f\<rparr>) = (fold load_line ls s)\<lparr>log_file := f\<rparr>"
  by (induction ls arbitrary: s) (simp_all add: load_line_log_update)

lemma add_frame:
  "max_short (add write_ok now rl msg imp s) = max_short s"
  "max_mid (add write_ok now rl msg imp s) = max_mid s"
  by (simp_all add: add_as_load append_disk_def load_line_frame)


lemma empty_store_update: "(empty_store a b f)\<lparr>log_file := g\<rparr> = empty_store a b g"
  by (simp add: empty_store_def)

lemma init_None: "MemoryStore_init a b None = empty_store a b None"
  by (simp add: MemoryStore_init_def load_from_disk_def empty_store_def)

lemma empty_store_log: "log_file (empty_store a b f) = f"
  by (simp add: empty_store_def)

lemma init_as_fold:
  "MemoryStore_init a b f =
     (fold load_line (lines_read f) (empty_store a b None))\<lparr>log_file := f\<rparr>"
proof (cases f)
  case None
  then show ?thesis by (simp add: init_None empty_store_def lines_read_def)
next
  case (Some g)
  have "MemoryStore_init a b (Some g) = fold load_line (readable_lines g) (empty_store a b (Some g))"
    by (simp add: MemoryStore_init_def load_from_disk_def empty_store_log)
  also have "\<dots> = fold load_line (readable_lines g) ((empty_store a b None)\<lparr>log_file := Some g\<rparr>)"
    by (simp only: empty_store_update)
  also have "\<dots> = (fold load_line (readable_lines g) (empty_store a b None))\<lparr>log_file := Some g\<rparr>"
    by (rule fold_load_log_update)
  finally show ?thesis
    by (simp add: Some lines_read_def)
qed

lemma file_of_log_update: "file_of (s\<lparr>log_file := f\<rparr>) = (case f of None \<Rightarrow> new_file | Some g \<Rightarrow> g)"
  by (simp add: file_of_def)

lemma file_of_frame:
  "file_of (load_line l s) = file_of s"
  by (simp add: file_of_def load_line_frame)










lemma strip_with_length: "length (strip_with p s) \<le> length s"
proof -
  have "length (dropWhile p (rev (dropWhile p s))) \<le> length (rev (dropWhile p s))"
    by (rule length_dropWhile_le)
  also have "\<dots> \<le> length s"
    by (simp add: length_dropWhile_le)
  finally show ?thesis by (simp add: strip_with_def)
qed

lemma strip_with_sublist: "sublist (strip_with p s) s"
proof -
  have "suffix (dropWhile p s) s"
    by (rule suffix_dropWhile)
  moreover have "prefix (strip_with p s) (dropWhile p s)"
    unfolding strip_with_def
    by (metis suffix_dropWhile suffix_to_prefix rev_rev_ident)
  ultimately show ?thesis
    by (meson prefix_imp_sublist suffix_imp_sublist sublist_order.order_trans)
qed



lemma in_unit_new_item: "in_unit (importance (new_item now rl msg imp))"
  by (simp add: new_item_def in_unit_def)



text \<open>
  C9. For every role and every real importance argument, the tier that \<open>add\<close> selects
  from the raw argument is the tier that the replay of the log selects from the stored,
  clamped importance: the two comparisons with 0.7 agree, and \<open>add\<close> leaves the three
  tiers as the loading of the written line leaves them.
\<close>

theorem add_routes_like_replay:
  "tiers (add write_ok now rl msg imp s) = tiers (load_line (Entry (new_item now rl msg imp)) s)
   \<and> importance (new_item now rl msg imp) = max 0 (min 1 imp)
   \<and> (0.7 \<le> imp) = (0.7 \<le> importance (new_item now rl msg imp))"
proof (intro conjI)
  show "tiers (add write_ok now rl msg imp s) = tiers (load_line (Entry (new_item now rl msg imp)) s)"
    by (simp add: add_as_load append_disk_def tiers_def)
  show "importance (new_item now rl msg imp) = max 0 (min 1 imp)"
    by (simp add: new_item_def)
  show "(0.7 \<le> imp) = (0.7 \<le> importance (new_item now rl msg imp))"
    by (auto simp: new_item_def max_def min_def)
qed






lemma slice_tail: "0 < m \<Longrightarrow> slice_from (- m) xs = drop (length xs - nat m) xs"
  by (simp add: slice_from_def nat_diff_distrib' max_def)

text \<open>
  C8 (amended). For every store and every bound \<open>M \<ge> 1\<close>, \<open>getRecallSnippet\<close> returns
  a string of at most \<open>M\<close> characters; when the joined blob is longer than \<open>M\<close>, the
  result is the trailing \<open>M\<close> characters of the blob with the whitespace at both ends
  stripped, a contiguous part of that tail.
\<close>

theorem recall_snippet_bounded:
  assumes "1 \<le> M"
  shows "int (length (get_recall_snippet smp M s)) \<le> M
     \<and> (if M < int (length (recall_blob smp s)) then
          get_recall_snippet smp M s
            = py_strip (drop (length (recall_blob smp s) - nat M) (recall_blob smp s))
          \<and> length (drop (length (recall_blob smp s) - nat M) (recall_blob smp s)) = nat M
          \<and> sublist (get_recall_snippet smp M s)
              (drop (length (recall_blob smp s) - nat M) (recall_blob smp s))
        else get_recall_snippet smp M s = py_strip (recall_blob smp s))"
proof (cases "M < int (length (recall_blob smp s))")
  case True
  let ?tail = "drop (length (recall_blob smp s) - nat M) (recall_blob smp s)"
  from assms True have eq: "get_recall_snippet smp M s = py_strip ?tail"
    by (simp add: get_recall_snippet_def Let_def slice_tail)
  from assms True have len: "length ?tail = nat M"
    by simp
  have "length (py_strip ?tail) \<le> length ?tail"
    unfolding py_strip_def by (rule strip_with_length)
  with len assms have bound: "int (length (py_strip ?tail)) \<le> M"
    by linarith
  have sub: "sublist (py_strip ?tail) ?tail"
    unfolding py_strip_def by (rule strip_with_sublist)
  from True eq len bound sub show ?thesis
    by simp
next
  case False
  then have eq: "get_recall_snippet smp M s = py_strip (recall_blob smp s)"
    by (simp add: get_recall_snippet_def Let_def)
  have "length (py_strip (recall_blob smp s)) \<le> length (recall_blob smp s)"
    unfolding py_strip_def by (rule strip_with_length)
  with False eq show ?thesis by simp
qed

lemma store_hello_blob: "recall_blob take_sample store_hello = py ''[RECENT] user: hello ''"
  by (simp add: recall_blob_def store_hello_def add_def new_item_def init_None empty_store_def
      append_disk_def deque_append_def last_n_def slice_from_def py_def
      take_sample_def Let_def nl_def)

lemma py_strip_ello: "py_strip (py ''ello '') = py ''ello''"
  by (simp add: py_strip_def strip_with_def py_isspace_def py_def)

theorem recall_snippet_bounded_witness:
  "(1::int) \<le> 5 \<and> length (get_recall_snippet take_sample 5 store_hello) \<le> 5
   \<and> get_recall_snippet take_sample 5 store_hello = py ''ello''"
proof -
  have h: "(1::int) \<le> 5" by simp
  have l: "5 < int (length (recall_blob take_sample store_hello))"
    by (simp add: store_hello_blob py_def)
  have d: "drop (length (recall_blob take_sample store_hello) - nat 5)
             (recall_blob take_sample store_hello) = py ''ello ''"
    by (simp add: store_hello_blob py_def)
  note r = recall_snippet_bounded [OF h, of take_sample store_hello]
  from r have "int (length (get_recall_snippet take_sample 5 store_hello)) \<le> 5"
    by (rule conjunct1)
  moreover from r l have "get_recall_snippet take_sample 5 store_hello = py ''ello''"
    by (simp only: if_True d py_strip_ello)
  ultimately show ?thesis by simp
qed

text \<open>
  C8 as stated fails. With \<open>M = 0\<close> the slice \<open>blob[-0:]\<close> is the whole blob, so the
  result is longer than \<open>M\<close>. With \<open>M = 5\<close> and a blob that ends in a space, the final
  \<open>strip()\<close> leaves four characters that are not a tail of the blob.
\<close>

theorem recall_snippet_counterexample:
  "length (get_recall_snippet take_sample 0 store_hello) = 20
   \<and> \<not> int (length (get_recall_snippet take_sample 0 store_hello)) \<le> 0
   \<and> 5 < length (recall_blob take_sample store_hello)
   \<and> get_recall_snippet take_sample 5 store_hello = py ''ello''
   \<and> get_recall_snippet take_sample 5 store_hello
       \<noteq> drop (length (recall_blob take_sample store_hello) - 5) (recall_blob take_sample store_hello)
   \<and> \<not> suffix (get_recall_snippet take_sample 5 store_hello) (recall_blob take_sample store_hello)"
proof -
  have a: "get_recall_snippet take_sample 0 store_hello = py ''[RECENT] user: hello''"
    by (simp add: get_recall_snippet_def store_hello_blob Let_def slice_from_def)
       (simp add: py_def py_strip_def strip_with_def py_isspace_def)
  have b: "get_recall_snippet take_sample 5 store_hello = py ''ello''"
    by (simp add: get_recall_snippet_def store_hello_blob Let_def slice_from_def)
       (simp add: py_def py_strip_def strip_with_def py_isspace_def)
  have c: "\<not> suffix (py ''ello'') (py ''[RECENT] user: hello '')"
    by (simp add: py_def suffix_to_prefix)
  show ?thesis
    unfolding a b store_hello_blob using c by (simp add: py_def)
qed

section \<open>Properties of the engine\<close>

lemma contains_py_index: "contains sub s = (py_index sub s \<noteq> None)"
  by (induction s) auto

lemma py_index_occurrence:
  "py_index sub s = Some i \<Longrightarrow> take i s @ sub @ drop (i + length sub) s = s"
proof (induction s arbitrary: i)
  case Nil
  then show ?case by (simp split: if_splits)
next
  case (Cons c cs)
  have sw: "\<And>xs ys. starts_with xs ys \<Longrightarrow> xs @ drop (length xs) ys = ys"
  proof -
    fix xs ys :: pystr
    show "starts_with xs ys \<Longrightarrow> xs @ drop (length xs) ys = ys"
      by (induction xs ys rule: starts_with.induct) auto
  qed
  show ?case
  proof (cases "starts_with sub (c # cs)")
    case True
    with Cons.prems have "i = 0" by simp
    with True sw [of sub "c # cs"] show ?thesis by simp
  next
    case False
    with Cons.prems obtain j where j: "py_index sub cs = Some j" and i: "i = Suc j"
      by auto
    from Cons.IH [OF j] i show ?thesis by simp
  qed
qed

lemma rotate_plane_wy: "rotate_plane (py ''w'') (py ''y'') theta s = Inr (rotate_attrs W Y theta s)"
  by (simp add: rotate_plane_def attr_of_name_def py_def)

lemma rotate_attrs_wy_x: "x_empathy (rotate_attrs W Y theta s) = max 0 (min 1 (x_empathy s))"
  by (simp add: rotate_attrs_def Let_def clamp_fields)

lemma update_state_total:
  "\<exists>st. update_state_from_interaction u a s = Inr st"
  by (simp add: update_state_from_interaction_def Let_def rotate_plane_wy)

lemma generate_reply_Inl:
  "(generate_reply env u eng = Inl e) = (final_answer_of env u eng = Inl e)"
proof (cases "final_answer_of env u eng")
  case (Inl e')
  then show ?thesis by (simp add: generate_reply_def)
next
  case (Inr fa)
  obtain st where "update_state_from_interaction u fa (state eng) = Inr st"
    using update_state_total by blast
  with Inr show ?thesis by (simp add: generate_reply_def Let_def)
qed

lemma generate_reply_Inr:
  assumes "final_answer_of env u eng = Inr fa"
  shows "\<exists>eng'. generate_reply env u eng = Inr (fa, eng')"
proof -
  obtain st where "update_state_from_interaction u fa (state eng) = Inr st"
    using update_state_total by blast
  with assms show ?thesis by (simp add: generate_reply_def Let_def)
qed

lemma council_pass_Inl:
  "(council_pass env u eng = Inl e)
     = (enable_multi_agent eng \<and> env_llm env (council_messages u) = Inl e)"
  by (auto simp: council_pass_def Let_def split: sum.splits)

lemma self_eval_pass_Inl:
  "(self_eval_pass env u d eng = Inl e)
     = (enable_self_eval eng \<and> env_llm env (eval_messages d u) = Inl e)"
  by (auto simp: self_eval_pass_def split: sum.splits)

lemma final_answer_of_Inl:
  "(final_answer_of env u eng = Inl e) =
     ((enable_multi_agent eng \<and> env_llm env (council_messages u) = Inl e)
      \<or> (\<exists>traces. council_pass env u eng = Inr traces
            \<and> env_llm env (draft_messages env u eng traces) = Inl e)
      \<or> (\<exists>traces draft. council_pass env u eng = Inr traces
            \<and> env_llm env (draft_messages env u eng traces) = Inr draft
            \<and> enable_self_eval eng
            \<and> env_llm env (eval_messages (py_strip draft) u) = Inl e))"
proof (cases "council_pass env u eng")
  case (Inl e')
  then have "enable_multi_agent eng \<and> env_llm env (council_messages u) = Inl e'"
    by (simp add: council_pass_Inl)
  with Inl show ?thesis
    by (auto simp: final_answer_of_def)
next
  case (Inr traces)
  then have no: "\<not> (enable_multi_agent eng \<and> env_llm env (council_messages u) = Inl e)"
    using council_pass_Inl [of env u eng e] by simp
  show ?thesis
  proof (cases "env_llm env (draft_messages env u eng traces)")
    case (Inl e')
    with Inr no show ?thesis
      by (auto simp: final_answer_of_def)
  next
    case (Inr draft)
    with \<open>council_pass env u eng = Inr traces\<close> no show ?thesis
      by (auto simp: final_answer_of_def self_eval_pass_Inl)
  qed
qed

lemma council_pass_disk:
  "council_pass (env\<lparr>env_disk_ok := d\<rparr>) u eng = council_pass env u eng"
  by (simp add: council_pass_def)

lemma draft_messages_disk:
  "draft_messages (env\<lparr>env_disk_ok := d\<rparr>) u eng traces = draft_messages env u eng traces"
  by (simp add: draft_messages_def build_system_prompt_def build_state_description_def
      as_vector_def)

lemma final_answer_of_disk:
  "final_answer_of (env\<lparr>env_disk_ok := d\<rparr>) u eng = final_answer_of env u eng"
  by (simp add: final_answer_of_def council_pass_disk draft_messages_disk self_eval_pass_def
      split: sum.splits)

text \<open>
  C5. \<open>generateReply\<close> raises exactly when the injected function raises in the council
  pass, in the draft call or in the self-evaluation call, and then with that exception.
  Neither the summarization call nor the outcome of any disk write appears in the
  condition: whether the turn raises does not depend on the disk writes.
\<close>

theorem turn_fatal_only_generate:
  "(generate_reply env u eng = Inl e) =
     ((enable_multi_agent eng \<and> env_llm env (council_messages u) = Inl e)
      \<or> (\<exists>traces. council_pass env u eng = Inr traces
            \<and> env_llm env (draft_messages env u eng traces) = Inl e)
      \<or> (\<exists>traces draft. council_pass env u eng = Inr traces
            \<and> env_llm env (draft_messages env u eng traces) = Inr draft
            \<and> enable_self_eval eng
            \<and> env_llm env (eval_messages (py_strip draft) u) = Inl e))
   \<and> (generate_reply (env\<lparr>env_disk_ok := d\<rparr>) u eng = Inl e) = (generate_reply env u eng = Inl e)"
  by (simp only: generate_reply_Inl final_answer_of_disk final_answer_of_Inl [symmetric])

theorem turn_fatal_only_generate_witness:
  "generate_reply down_env (py ''hi'') (Engine_init None) = Inl (Raised (py ''backend down''))"
proof -
  have "enable_multi_agent (Engine_init None)
      \<and> env_llm down_env (council_messages (py ''hi'')) = Inl (Raised (py ''backend down''))"
    by (simp add: Engine_init_def down_env_def stub_env_def)
  with turn_fatal_only_generate [of down_env "py ''hi''" "Engine_init None"
      "Raised (py ''backend down'')" "\<lambda>k. True"]
  show ?thesis by blast
qed

lemma starts_with_prefix: "starts_with xs ys = prefix xs ys"
  by (induction xs ys rule: starts_with.induct) auto

lemma contains_sublist: "contains sub s = sublist sub s"
  by (induction s) (auto simp: starts_with_prefix sublist_Cons_right)

lemma prefix_into_butlast:
  assumes "prefix sub (pre @ sub @ rest)" and "pre \<noteq> []" and "sub \<noteq> []"
  shows "prefix sub (pre @ butlast sub)"
proof -
  have "prefix (butlast sub) (sub @ rest)"
    by (metis append_butlast_last_id assms(3) prefix_append prefixI append.assoc)
  then have "prefix (pre @ butlast sub) (pre @ sub @ rest)"
    by simp
  with assms(1) have "prefix sub (pre @ butlast sub) \<or> prefix (pre @ butlast sub) sub"
    using prefix_same_cases by blast
  moreover have "length sub \<le> length (pre @ butlast sub)"
    using assms(2,3) by (cases pre) simp_all
  ultimately show ?thesis
    by (metis prefix_length_le prefix_order.eq_iff le_antisym prefix_length_prefix order_refl)
qed

lemma py_index_decomposed:
  "\<not> contains sub (pre @ butlast sub) \<Longrightarrow> py_index sub (pre @ sub @ rest) = Some (length pre)"
proof (induction pre)
  case Nil
  have "starts_with sub (sub @ rest)"
    by (simp add: starts_with_prefix)
  then show ?case
    by (cases "sub @ rest") auto
next
  case (Cons p ps)
  from Cons.prems have ne: "sub \<noteq> []"
    by (auto simp: contains_sublist)
  from Cons.prems have a: "\<not> starts_with sub (p # ps @ butlast sub)"
    and b: "\<not> contains sub (ps @ butlast sub)"
    by simp_all
  have "\<not> starts_with sub (p # ps @ sub @ rest)"
  proof
    assume "starts_with sub (p # ps @ sub @ rest)"
    then have "prefix sub ((p # ps) @ sub @ rest)"
      by (simp add: starts_with_prefix)
    then have "prefix sub ((p # ps) @ butlast sub)"
      using ne by (intro prefix_into_butlast) simp_all
    with a show False by (simp add: starts_with_prefix)
  qed
  with Cons.IH [OF b] show ?case by simp
qed

lemma py_index_first:
  "py_index sub s = Some i \<Longrightarrow> sub \<noteq> [] \<Longrightarrow> \<not> contains sub (take i s @ butlast sub)"
proof (induction s arbitrary: i)
  case Nil
  then show ?case by simp
next
  case (Cons c cs)
  show ?case
  proof (cases "starts_with sub (c # cs)")
    case True
    with Cons.prems have "i = 0" by simp
    moreover have "\<not> sublist sub (butlast sub)"
      using Cons.prems(2) sublist_length_le [of sub "butlast sub"] by (cases sub rule: rev_cases) auto
    ultimately show ?thesis by (simp add: contains_sublist)
  next
    case False
    with Cons.prems obtain j where j: "py_index sub cs = Some j" and i: "i = Suc j"
      by auto
    from Cons.IH [OF j Cons.prems(2)] have ih: "\<not> contains sub (take j cs @ butlast sub)" .
    have cs: "take j cs @ sub @ drop (j + length sub) cs = cs"
      by (rule py_index_occurrence [OF j])
    have "prefix (butlast sub) (sub @ drop (j + length sub) cs)"
      by (metis append_butlast_last_id Cons.prems(2) prefixI append.assoc)
    then have "prefix (c # take j cs @ butlast sub) (c # take j cs @ sub @ drop (j + length sub) cs)"
      by simp
    then have pc: "prefix (c # take j cs @ butlast sub) (c # cs)"
      by (simp only: cs)
    have "\<not> starts_with sub (c # take j cs @ butlast sub)"
    proof
      assume "starts_with sub (c # take j cs @ butlast sub)"
      then have "prefix sub (c # take j cs @ butlast sub)"
        by (simp add: starts_with_prefix)
      with pc have "prefix sub (c # cs)"
        using prefix_order.order_trans by blast
      with False show False by (simp add: starts_with_prefix)
    qed
    with ih i show ?thesis by simp
  qed
qed

lemma marker_nonempty: "marker \<noteq> []"
  by (simp add: marker_def py_def)

lemma extract_final_no_marker:
  "\<not> contains marker eval_text \<Longrightarrow> extract_final eval_text d = d"
  by (simp add: extract_final_def contains_py_index)

lemma extract_final_decomposed:
  assumes "\<not> contains marker (pre @ butlast marker)"
  shows "extract_final (pre @ marker @ rest) d =
     (if py_strip_chars (py '' :'' @ nl) rest = [] then d
      else py_strip (py_strip_chars (py '' :'' @ nl) rest))"
  by (simp add: extract_final_def py_index_decomposed [OF assms] Let_def)

lemma final_answer_of_eval:
  assumes "enable_self_eval eng" and "council_pass env u eng = Inr traces"
    and "env_llm env (draft_messages env u eng traces) = Inr draft"
    and "env_llm env (eval_messages (py_strip draft) u) = Inr eval_text"
  shows "final_answer_of env u eng = Inr (extract_final eval_text (py_strip draft))"
  using assms by (simp add: final_answer_of_def self_eval_pass_def)

lemma reply_of_generate_reply:
  "final_answer_of env u eng = Inr fa \<Longrightarrow> reply_of (generate_reply env u eng) = Inr fa"
  using generate_reply_Inr [of env u eng fa] by (auto simp: reply_of_def)

text \<open>
  C4 (amended). With self-evaluation enabled and the council, draft and self-evaluation
  calls returning: when the response does not contain \<open>ROMANAI_FINAL\<close>, or nothing is
  left of the text after its first occurrence once the characters \<open>':'\<close>, space and
  newline are stripped from both ends, \<open>generateReply\<close> returns the draft (the draft
  response, stripped of surrounding whitespace); when that stripped text, stripped of
  surrounding whitespace as well, is not empty, \<open>generateReply\<close> returns it. A response
  that contains the marker has such a first occurrence.
\<close>

theorem self_eval_marker_extraction:
  assumes "enable_self_eval eng" and "council_pass env u eng = Inr traces"
    and "env_llm env (draft_messages env u eng traces) = Inr draft"
    and "env_llm env (eval_messages (py_strip draft) u) = Inr eval_text"
  shows "(\<not> contains marker eval_text \<longrightarrow>
            reply_of (generate_reply env u eng) = Inr (py_strip draft))
     \<and> (contains marker eval_text \<longrightarrow>
          (\<exists>pre rest. eval_text = pre @ marker @ rest \<and> \<not> contains marker (pre @ butlast marker)))
     \<and> (\<forall>pre rest. eval_text = pre @ marker @ rest \<and> \<not> contains marker (pre @ butlast marker) \<longrightarrow>
          (py_strip_chars (py '' :'' @ nl) rest = [] \<longrightarrow>
             reply_of (generate_reply env u eng) = Inr (py_strip draft))
          \<and> (py_strip (py_strip_chars (py '' :'' @ nl) rest) \<noteq> [] \<longrightarrow>
             reply_of (generate_reply env u eng)
               = Inr (py_strip (py_strip_chars (py '' :'' @ nl) rest))))"
proof -
  have r: "reply_of (generate_reply env u eng) = Inr (extract_final eval_text (py_strip draft))"
    by (rule reply_of_generate_reply [OF final_answer_of_eval [OF assms]])
  have absent: "\<not> contains marker eval_text \<longrightarrow>
            reply_of (generate_reply env u eng) = Inr (py_strip draft)"
    by (simp add: r extract_final_no_marker)
  have occurs: "contains marker eval_text \<longrightarrow>
          (\<exists>pre rest. eval_text = pre @ marker @ rest \<and> \<not> contains marker (pre @ butlast marker))"
  proof
    assume "contains marker eval_text"
    then obtain i where i: "py_index marker eval_text = Some i"
      by (auto simp: contains_py_index)
    have "eval_text = take i eval_text @ marker @ drop (i + length marker) eval_text"
      using py_index_occurrence [OF i] by simp
    moreover have "\<not> contains marker (take i eval_text @ butlast marker)"
      by (rule py_index_first [OF i marker_nonempty])
    ultimately show "\<exists>pre rest. eval_text = pre @ marker @ rest
        \<and> \<not> contains marker (pre @ butlast marker)"
      by blast
  qed
  have present: "\<forall>pre rest. eval_text = pre @ marker @ rest
          \<and> \<not> contains marker (pre @ butlast marker) \<longrightarrow>
          (py_strip_chars (py '' :'' @ nl) rest = [] \<longrightarrow>
             reply_of (generate_reply env u eng) = Inr (py_strip draft))
          \<and> (py_strip (py_strip_chars (py '' :'' @ nl) rest) \<noteq> [] \<longrightarrow>
             reply_of (generate_reply env u eng)
               = Inr (py_strip (py_strip_chars (py '' :'' @ nl) rest)))"
  proof (intro allI impI, elim conjE)
    fix pre rest
    assume e: "eval_text = pre @ marker @ rest"
      and f: "\<not> contains marker (pre @ butlast marker)"
    have ne: "py_strip (py_strip_chars (py '' :'' @ nl) rest) \<noteq> []
        \<Longrightarrow> py_strip_chars (py '' :'' @ nl) rest \<noteq> []"
      by (auto simp: py_strip_def strip_with_def)
    show "(py_strip_chars (py '' :'' @ nl) rest = [] \<longrightarrow>
             reply_of (generate_reply env u eng) = Inr (py_strip draft))
          \<and> (py_strip (py_strip_chars (py '' :'' @ nl) rest) \<noteq> [] \<longrightarrow>
             reply_of (generate_reply env u eng)
               = Inr (py_strip (py_strip_chars (py '' :'' @ nl) rest)))"
      using ne by (auto simp: r e extract_final_decomposed [OF f])
  qed
  from absent occurs present show ?thesis by blast
qed


lemma final_env_llm: "env_llm final_env msgs = Inr (py ''blah ROMANAI_FINAL: see items 1-3:'')"
  by (simp add: final_env_def stub_env_def)

lemma final_env_council:
  "\<exists>traces. council_pass final_env u (Engine_init None) = Inr traces"
  by (simp add: council_pass_def Let_def final_env_llm)

lemma final_text_split:
  "py ''blah ROMANAI_FINAL: see items 1-3:'' = py ''blah '' @ marker @ py '': see items 1-3:''"
  by (simp add: py_def marker_def)

lemma final_text_first: "\<not> contains marker (py ''blah '' @ butlast marker)"
  by (simp add: py_def marker_def)

lemma final_text_stripped:
  "py_strip_chars (py '' :'' @ nl) (py '': see items 1-3:'') = py ''see items 1-3''"
  "py_strip (py ''see items 1-3'') = py ''see items 1-3''"
  by (simp_all add: py_strip_chars_def py_strip_def strip_with_def py_isspace_def py_def nl_def)

theorem self_eval_marker_extraction_witness:
  "reply_of (generate_reply final_env (py ''hi'') (Engine_init None)) = Inr (py ''see items 1-3'')"
proof -
  let ?eng = "Engine_init None"
  let ?u = "py ''hi''"
  have a: "enable_self_eval ?eng"
    by (simp add: Engine_init_def)
  obtain traces where b: "council_pass final_env ?u ?eng = Inr traces"
    using final_env_council by blast
  have ne: "py ''see items 1-3'' \<noteq> []"
    by (simp add: py_def)
  note h = self_eval_marker_extraction [OF a b final_env_llm final_env_llm]
  from h have "\<forall>pre rest. py ''blah ROMANAI_FINAL: see items 1-3:'' = pre @ marker @ rest
          \<and> \<not> contains marker (pre @ butlast marker) \<longrightarrow>
          (py_strip (py_strip_chars (py '' :'' @ nl) rest) \<noteq> [] \<longrightarrow>
             reply_of (generate_reply final_env ?u ?eng)
               = Inr (py_strip (py_strip_chars (py '' :'' @ nl) rest)))"
    by blast
  from this [rule_format, of "py ''blah ''" "py '': see items 1-3:''"]
  show ?thesis
    using final_text_split final_text_first ne by (simp add: final_text_stripped)
qed

lemma final_env_reply:
  "reply_of (generate_reply final_env (py ''hi'') (Engine_init None)) = Inr (py ''see items 1-3'')"
proof -
  obtain traces where b: "council_pass final_env (py ''hi'') (Engine_init None) = Inr traces"
    using final_env_council by blast
  have a: "enable_self_eval (Engine_init None)"
    by (simp add: Engine_init_def)
  have "extract_final (py ''blah '' @ marker @ py '': see items 1-3:'') (py_strip (py ''blah ROMANAI_FINAL: see items 1-3:''))
        = py ''see items 1-3''"
    using extract_final_decomposed [OF final_text_first]
    by (simp add: final_text_stripped) (simp add: py_def)
  then show ?thesis
    using reply_of_generate_reply [OF final_answer_of_eval [OF a b final_env_llm final_env_llm]]
    by (simp add: final_text_split [symmetric])
qed

text \<open>
  C4 as stated fails: the text after the marker loses the characters \<open>':'\<close>, space and
  newline at its end as well. For the response \<open>blah ROMANAI_FINAL: see items 1-3:\<close> the
  text after the marker without its leading colon and whitespace is \<open>see items 1-3:\<close>,
  and \<open>generateReply\<close> returns \<open>see items 1-3\<close>.
\<close>

theorem self_eval_marker_counterexample:
  "reply_of (generate_reply final_env (py ''hi'') (Engine_init None)) = Inr (py ''see items 1-3'')
   \<and> env_llm final_env
         (eval_messages (py_strip (py ''blah ROMANAI_FINAL: see items 1-3:'')) (py ''hi''))
       = Inr (py ''blah '' @ marker @ py '': see items 1-3:'')
   \<and> spec_leading_strip (py '': see items 1-3:'') = py ''see items 1-3:''
   \<and> py ''see items 1-3'' \<noteq> py ''see items 1-3:''"
proof (intro conjI)
  show "reply_of (generate_reply final_env (py ''hi'') (Engine_init None)) = Inr (py ''see items 1-3'')"
    by (rule final_env_reply)
  show "env_llm final_env
         (eval_messages (py_strip (py ''blah ROMANAI_FINAL: see items 1-3:'')) (py ''hi''))
       = Inr (py ''blah '' @ marker @ py '': see items 1-3:'')"
    by (simp add: final_env_llm final_text_split)
  show "spec_leading_strip (py '': see items 1-3:'') = py ''see items 1-3:''"
    by (simp add: spec_leading_strip_def py_isspace_def py_def)
  show "py ''see items 1-3'' \<noteq> py ''see items 1-3:''"
    by (simp add: py_def)
qed

lemma sad_text_keywords:
  "any_in [py ''sad'', py ''scared'', py ''afraid'', py ''lonely'', py ''hurt''] (py_lower sad_text)"
  "\<not> any_in [py ''idea'', py ''story'', py ''creative'', py ''brainstorm''] (py_lower sad_text)"
  "\<not> any_in [py ''important'', py ''remember'', py ''my name'', py ''my birthday'', py ''my project'']
       (py_lower sad_text)"
  by (simp_all add: any_in_def sad_text_def py_lower_def lower_cp_def py_def)

lemma update_state_sad_empathy:
  assumes "update_state_from_interaction sad_text a s = Inr st"
  shows "x_empathy st =
     max 0 (min 1 (min 1 (x_empathy s + 0.08)))
       + (0.55 - max 0 (min 1 (min 1 (x_empathy s + 0.08)))) * 0.02"
  using assms
  by (auto simp: update_state_from_interaction_def Let_def rotate_plane_wy sad_text_keywords
      soften_fields rotate_attrs_wy_x)

lemma summary_hook_frame:
  "state (summary_hook env e) = state e"
  "dialog_history (summary_hook env e) = dialog_history e"
  "short_term (memory (summary_hook env e)) = short_term (memory e)"
  "long_term (memory (summary_hook env e)) = long_term (memory e)"
  "max_short (memory (summary_hook env e)) = max_short (memory e)"
  by (simp_all add: summary_hook_def promote_summary_def add_def Let_def append_disk_def
      split: sum.splits option.splits)

lemma log_lines_add:
  "log_lines (add ok now rl msg imp s)
     = log_lines s @ (if ok then [appended_line (file_of s) (new_item now rl msg imp)] else [])"
  by (simp add: log_lines_def add_as_load append_disk_def file_of_frame file_of_log_update
      append_line_def del: load_line.simps)

lemma log_lines_summary_hook:
  "\<exists>more. log_lines (memory (summary_hook env e)) = log_lines (memory e) @ more"
  by (simp add: summary_hook_def promote_summary_def log_lines_add split: sum.splits option.splits)

lemma generate_reply_unfold:
  assumes "generate_reply env u eng = Inr (r, e)"
  shows "\<exists>st. update_state_from_interaction u r (state eng) = Inr st
     \<and> e = summary_hook env
           (eng\<lparr>state := st,
                dialog_history := deque_append 64 (dialog_history eng) (u, r),
                memory := memory_write env u r (memory eng)\<rparr>)"
  using assms
  by (auto simp: generate_reply_def Let_def split: sum.splits)

lemma memory_write_sad:
  "memory_write env sad_text r m =
     add (env_disk_ok env 1) (env_clock env 1) (py ''assistant'') r (0.4 * 0.8)
       (add (env_disk_ok env 0) (env_clock env 0) (py ''user'') sad_text 0.4 m)"
  by (simp add: memory_write_def Let_def sad_text_keywords)

lemma add_short:
  "rl \<noteq> py ''summary'' \<Longrightarrow> imp < 0.7 \<Longrightarrow>
   short_term (add ok now rl msg imp s) = deque_append (max_short s) (short_term s) (new_item now rl msg imp)"
  by (simp add: add_def Let_def append_disk_def)

lemma role_names: "py ''user'' \<noteq> py ''summary''" "py ''assistant'' \<noteq> py ''summary''"
  by (simp_all add: py_def)

lemma deque_append_keeps_last:
  assumes "2 \<le> n"
  shows "a \<in> set (deque_append n (deque_append n xs a) b)"
proof -
  let ?ys = "deque_append n xs a"
  have "?ys \<noteq> [] \<and> last ?ys = a"
    using assms by (auto simp: deque_append_def Let_def)
  then obtain zs where zs: "?ys = zs @ [a]"
    by (metis append_butlast_last_id)
  have "length ?ys \<le> n"
    by (simp add: deque_append_def Let_def)
  then have k: "Suc (Suc (length zs)) - n \<le> length zs"
    using assms by (simp add: zs)
  have "deque_append n (zs @ [a]) b = drop (Suc (Suc (length zs)) - n) (zs @ [a, b])"
    by (simp add: deque_append_def Let_def)
  also have "\<dots> = drop (Suc (Suc (length zs)) - n) zs @ [a, b]"
    using k by simp
  finally show ?thesis
    by (simp add: zs)
qed

lemma sad_turn_empathy:
  assumes "generate_reply env sad_text eng = Inr (r, e)"
  shows "x_empathy (state e)
       = max 0 (min 1 (min 1 (x_empathy (state eng) + 0.08)))
         + (0.55 - max 0 (min 1 (min 1 (x_empathy (state eng) + 0.08)))) * 0.02"
proof -
  from generate_reply_unfold [OF assms] obtain st where
    st: "update_state_from_interaction sad_text r (state eng) = Inr st"
    and e: "e = summary_hook env
           (eng\<lparr>state := st,
                dialog_history := deque_append 64 (dialog_history eng) (sad_text, r),
                memory := memory_write env sad_text r (memory eng)\<rparr>)"
    by blast
  have "x_empathy (state e) = x_empathy st"
    by (simp add: e summary_hook_frame)
  with update_state_sad_empathy [OF st] show ?thesis
    by (simp only:)
qed

lemma fake_llm_user:
  assumes "(py ''user'', c) \<in> set msgs"
  shows "\<exists>r. fake_llm msgs = Inr r"
proof -
  from assms have "(py ''user'', c) \<in> set (filter (\<lambda>m. fst m = py ''user'') msgs)"
    by simp
  then obtain m ms where "filter (\<lambda>m. fst m = py ''user'') msgs = m # ms"
    by (cases "filter (\<lambda>m. fst m = py ''user'') msgs") auto
  then show ?thesis
    by (simp add: fake_llm_def)
qed

lemma echo_env_llm: "env_llm echo_env = fake_llm"
  by (simp add: echo_env_def stub_env_def)

lemma echo_final_answer: "\<exists>fa. final_answer_of echo_env u eng = Inr fa"
proof -
  obtain c where c: "fake_llm (council_messages u) = Inr c"
    using fake_llm_user [of "build_multi_agent_prompt u" "council_messages u"]
    by (auto simp: council_messages_def)
  then have "\<exists>traces. council_pass echo_env u eng = Inr traces"
    by (simp add: council_pass_def Let_def echo_env_llm)
  then obtain traces where t: "council_pass echo_env u eng = Inr traces"
    by blast
  obtain d where d: "fake_llm (draft_messages echo_env u eng traces) = Inr d"
    using fake_llm_user [of u "draft_messages echo_env u eng traces"]
    by (auto simp: draft_messages_def Let_def)
  obtain v where v: "fake_llm (eval_messages (py_strip d) u) = Inr v"
    using fake_llm_user [of "build_self_eval_prompt (py_strip d) u" "eval_messages (py_strip d) u"]
    by (auto simp: eval_messages_def)
  show ?thesis
    by (simp add: final_answer_of_def t d v echo_env_llm self_eval_pass_def)
qed

lemma echo_turn: "\<exists>r e. generate_reply echo_env u eng = Inr (r, e)"
  using echo_final_answer [of u eng] generate_reply_Inr [of echo_env u eng] by blast

text \<open>
  C7 (amended). In a turn with the user text \<open>I feel so sad and lonely today\<close> that
  returns, from a prior empathy in [0,1]: the distress keyword raises the empathy to
  \<open>e = min(1, prior + 0.08)\<close>, and the relaxation at the end of the same state update
  moves it towards 0.55, so that after the turn the empathy is \<open>e + (0.55 - e) * 0.02\<close>;
  and a memory entry with role \<open>user\<close>, importance 0.4 and the user text is appended to
  the short-term tier, followed by the assistant's entry, and its JSON object is written
  to the log, as a line of its own when the log ends with a newline or is new.
\<close>

theorem distress_turn:
  assumes "generate_reply env sad_text eng = Inr (r, e)"
    and "in_unit (x_empathy (state eng))"
  shows "x_empathy (state e)
       = min 1 (x_empathy (state eng) + 0.08)
         + (0.55 - min 1 (x_empathy (state eng) + 0.08)) * 0.02
     \<and> role (new_item (env_clock env 0) (py ''user'') sad_text 0.4) = py ''user''
     \<and> importance (new_item (env_clock env 0) (py ''user'') sad_text 0.4) = 0.4
     \<and> content (new_item (env_clock env 0) (py ''user'') sad_text 0.4) = sad_text
     \<and> short_term (memory e)
       = deque_append (max_short (memory eng))
           (deque_append (max_short (memory eng)) (short_term (memory eng))
              (new_item (env_clock env 0) (py ''user'') sad_text 0.4))
           (new_item (env_clock env 1) (py ''assistant'') r (0.4 * 0.8))
     \<and> (2 \<le> max_short (memory eng) \<longrightarrow>
          new_item (env_clock env 0) (py ''user'') sad_text 0.4 \<in> set (short_term (memory e)))
     \<and> (env_disk_ok env 0 \<longrightarrow>
          appended_line (file_of (memory eng)) (new_item (env_clock env 0) (py ''user'') sad_text 0.4)
            \<in> set (log_lines (memory e)))
     \<and> (env_disk_ok env 0 \<and> open_tail (file_of (memory eng)) = None \<longrightarrow>
          Entry (new_item (env_clock env 0) (py ''user'') sad_text 0.4)
            \<in> set (log_lines (memory e)))"
proof -
  let ?u = "new_item (env_clock env 0) (py ''user'') sad_text 0.4"
  let ?a = "new_item (env_clock env 1) (py ''assistant'') r (0.4 * 0.8)"
  from generate_reply_unfold [OF assms(1)] obtain st where
    st: "update_state_from_interaction sad_text r (state eng) = Inr st"
    and e: "e = summary_hook env
           (eng\<lparr>state := st,
                dialog_history := deque_append 64 (dialog_history eng) (sad_text, r),
                memory := memory_write env sad_text r (memory eng)\<rparr>)"
    by blast
  from assms(2) have c: "max 0 (min 1 (min 1 (x_empathy (state eng) + 0.08)))
      = min 1 (x_empathy (state eng) + 0.08)"
    by (simp add: in_unit_def min_def max_def)
  have "x_empathy (state e) = x_empathy st"
    by (simp add: e summary_hook_frame)
  also have "\<dots> = max 0 (min 1 (min 1 (x_empathy (state eng) + 0.08)))
       + (0.55 - max 0 (min 1 (min 1 (x_empathy (state eng) + 0.08)))) * 0.02"
    by (rule update_state_sad_empathy [OF st])
  finally have x: "x_empathy (state e)
       = min 1 (x_empathy (state eng) + 0.08)
         + (0.55 - min 1 (x_empathy (state eng) + 0.08)) * 0.02"
    by (simp only: c)
  have item: "role ?u = py ''user''" "importance ?u = 0.4" "content ?u = sad_text"
    by (simp_all add: new_item_def)
  have short: "short_term (memory e)
       = deque_append (max_short (memory eng))
           (deque_append (max_short (memory eng)) (short_term (memory eng)) ?u) ?a"
    by (simp add: e summary_hook_frame memory_write_sad add_short role_names add_frame)
  have kept: "2 \<le> max_short (memory eng) \<longrightarrow> ?u \<in> set (short_term (memory e))"
    by (simp add: short deque_append_keeps_last)
  let ?e1 = "eng\<lparr>state := st,
                dialog_history := deque_append 64 (dialog_history eng) (sad_text, r),
                memory := memory_write env sad_text r (memory eng)\<rparr>"
  obtain more where "log_lines (memory (summary_hook env ?e1)) = log_lines (memory ?e1) @ more"
    using log_lines_summary_hook [of env ?e1] by blast
  then have "log_lines (memory e)
      = log_lines (memory_write env sad_text r (memory eng)) @ more"
    by (simp add: e)
  then have logged: "env_disk_ok env 0 \<longrightarrow>
      appended_line (file_of (memory eng)) ?u \<in> set (log_lines (memory e))"
    by (simp add: memory_write_sad log_lines_add)
  then have entry: "env_disk_ok env 0 \<and> open_tail (file_of (memory eng)) = None \<longrightarrow>
      Entry ?u \<in> set (log_lines (memory e))"
    by (auto simp: appended_line_def)
  from x item short kept logged entry show ?thesis
    by blast
qed


theorem distress_turn_witness:
  "in_unit (x_empathy (state (Engine_init None)))
   \<and> empathy_of (generate_reply echo_env sad_text (Engine_init None)) = Inr 0.6284"
proof -
  have u: "in_unit (x_empathy (state (Engine_init None)))"
    by (simp add: Engine_init_def SpacetimeState_init_def in_unit_def)
  obtain r e where g: "generate_reply echo_env sad_text (Engine_init None) = Inr (r, e)"
    using echo_turn by blast
  from distress_turn [OF g u] have "x_empathy (state e) = 0.6284"
    by (simp add: Engine_init_def SpacetimeState_init_def)
  with g u show ?thesis
    by (simp add: empathy_of_def)
qed

text \<open>
  C7 as stated fails: the relaxation of the same turn follows the increase. From the
  default empathy 0.55 the turn ends at 0.6284, not at 0.63; from the empathy 1 it ends
  at 0.991, below the prior value.
\<close>

theorem distress_turn_counterexample:
  "empathy_of (generate_reply echo_env sad_text (Engine_init None)) = Inr 0.6284
   \<and> x_empathy (state (Engine_init None)) + 0.08 = 0.63
   \<and> (0.6284 :: real) \<noteq> 0.63
   \<and> empathy_of (generate_reply echo_env sad_text
         ((Engine_init None)\<lparr>state := SpacetimeState_init\<lparr>x_empathy := 1\<rparr>\<rparr>)) = Inr 0.991
   \<and> (0.991 :: real) < 1"
proof -
  let ?hot = "(Engine_init None)\<lparr>state := SpacetimeState_init\<lparr>x_empathy := 1\<rparr>\<rparr>"
  obtain r e where g: "generate_reply echo_env sad_text (Engine_init None) = Inr (r, e)"
    using echo_turn by blast
  have "x_empathy (state e) = 0.6284"
    using sad_turn_empathy [OF g] by (simp add: Engine_init_def SpacetimeState_init_def)
  then have a: "empathy_of (generate_reply echo_env sad_text (Engine_init None)) = Inr 0.6284"
    by (simp add: g empathy_of_def)
  obtain r' e' where g': "generate_reply echo_env sad_text ?hot = Inr (r', e')"
    using echo_turn by blast
  have "x_empathy (state e') = 0.991"
    using sad_turn_empathy [OF g'] by simp
  then have b: "empathy_of (generate_reply echo_env sad_text ?hot) = Inr 0.991"
    by (simp add: g' empathy_of_def)
  have c: "x_empathy (state (Engine_init None)) + 0.08 = 0.63"
    by (simp add: Engine_init_def SpacetimeState_init_def)
  from a b c show ?thesis by simp
qed

lemma deque_append_len: "length (deque_append n xs v) = min n (Suc (length xs))"
  by (simp add: deque_append_def Let_def)

lemma add_mid_other:
  "rl \<noteq> py ''summary'' \<Longrightarrow> mid_term (add ok now rl msg imp s) = mid_term s"
  by (simp add: add_def Let_def append_disk_def)

lemma memory_write_mid:
  "mid_term (memory_write env u r m) = mid_term m"
  "max_mid (memory_write env u r m) = max_mid m"
  by (simp_all add: memory_write_def Let_def add_mid_other role_names add_frame)

lemma summary_hook_idle:
  "length (dialog_history e) mod 6 \<noteq> 0 \<Longrightarrow> summary_hook env e = e"
  by (simp add: summary_hook_def)

lemma summary_hook_max_mid: "max_mid (memory (summary_hook env e)) = max_mid (memory e)"
  by (simp add: summary_hook_def promote_summary_def add_frame split: sum.splits option.splits)

lemma turn_history:
  assumes "generate_reply env u eng = Inr (r, e)"
  shows "dialog_history e = deque_append 64 (dialog_history eng) (u, r)"
    and "max_mid (memory e) = max_mid (memory eng)"
  using generate_reply_unfold [OF assms]
  by (auto simp: summary_hook_frame summary_hook_max_mid memory_write_mid)

lemma turn_without_summary:
  assumes "generate_reply env u eng = Inr (r, e)"
    and "min 64 (Suc (length (dialog_history eng))) mod 6 \<noteq> 0"
  shows "mid_term (memory e) = mid_term (memory eng)"
proof -
  from generate_reply_unfold [OF assms(1)] obtain st where
    e: "e = summary_hook env
           (eng\<lparr>state := st,
                dialog_history := deque_append 64 (dialog_history eng) (u, r),
                memory := memory_write env u r (memory eng)\<rparr>)"
    by blast
  show ?thesis
    unfolding e using assms(2)
    by (subst summary_hook_idle) (simp_all add: deque_append_len memory_write_mid)
qed

lemma strip_with_keep:
  assumes "s \<noteq> []" and "\<not> p (hd s)" and "\<not> p (last s)"
  shows "strip_with p s = s"
proof -
  from assms have a: "dropWhile p s = s"
    by (cases s) simp_all
  from assms have "dropWhile p (rev s) = rev s"
    by (cases "rev s") (simp_all add: hd_rev)
  with a show ?thesis
    by (simp add: strip_with_def)
qed

lemma fake_llm_answer:
  assumes "fake_llm msgs = Inr t"
  shows "t \<noteq> [] \<and> py_strip t \<noteq> []"
proof -
  from assms obtain body where t: "t = py ''(FAKE_LLM) I received your message: '' @ body @ py '' ...''"
    by (auto simp: fake_llm_def split: list.splits)
  have "hd t = 40" and "last t = 46" and "t \<noteq> []"
    by (simp_all add: t py_def)
  then have "py_strip t = t"
    unfolding py_strip_def by (intro strip_with_keep) (simp_all add: py_isspace_def)
  with \<open>t \<noteq> []\<close> show ?thesis by simp
qed

lemma turn_with_summary:
  assumes "generate_reply echo_env u eng = Inr (r, e)"
    and "min 64 (Suc (length (dialog_history eng))) mod 6 = 0"
  shows "\<exists>now msg. mid_term (memory e)
     = deque_append (max_mid (memory eng)) (mid_term (memory eng))
         (new_item now (py ''summary'') msg 0.7)"
proof -
  from generate_reply_unfold [OF assms(1)] obtain st where
    e: "e = summary_hook echo_env
           (eng\<lparr>state := st,
                dialog_history := deque_append 64 (dialog_history eng) (u, r),
                memory := memory_write echo_env u r (memory eng)\<rparr>)"
    by blast
  let ?e1 = "eng\<lparr>state := st,
                dialog_history := deque_append 64 (dialog_history eng) (u, r),
                memory := memory_write echo_env u r (memory eng)\<rparr>"
  have h: "dialog_history ?e1 \<noteq> []"
    by (simp add: deque_append_def Let_def)
  obtain t where t: "fake_llm (summarize_messages ?e1) = Inr t"
    using fake_llm_user [of _ "summarize_messages ?e1"]
    by (auto simp: summarize_messages_def Let_def)
  from fake_llm_answer [OF t] have ne: "t \<noteq> []" "py_strip t \<noteq> []"
    by simp_all
  have s: "summarize_recent echo_env ?e1 = Inr (Some (py_strip t))"
    using h by (simp add: summarize_recent_def echo_env_llm t ne)
  have m: "length (dialog_history ?e1) mod 6 = 0"
    using assms(2) by (simp add: deque_append_len)
  have "mid_term (memory (summary_hook echo_env ?e1))
      = mid_term (promote_summary (env_disk_ok echo_env 2) (env_clock echo_env 2) (py_strip t) 0.7
          (memory ?e1))"
    using m s ne by (simp add: summary_hook_def)
  also have "\<dots> = deque_append (max_mid (memory eng)) (mid_term (memory eng))
         (new_item (env_clock echo_env 2) (py ''summary'') (py_strip t) 0.7)"
    by (simp add: promote_summary_def add_def Let_def append_disk_def memory_write_mid)
  finally show ?thesis
    unfolding e by blast
qed

lemma echo_run:
  "length (dialog_history eng) \<le> 64 \<Longrightarrow>
   \<exists>e. run_turns (replicate n (echo_env, u)) eng = Inr e
     \<and> length (dialog_history e) = min 64 (length (dialog_history eng) + n)
     \<and> max_mid (memory e) = max_mid (memory eng)
     \<and> ((\<forall>k<n. min 64 (length (dialog_history eng) + Suc k) mod 6 \<noteq> 0)
          \<longrightarrow> mid_term (memory e) = mid_term (memory eng))"
proof (induction n arbitrary: eng)
  case 0
  then show ?case by simp
next
  case (Suc n)
  obtain r e1 where g: "generate_reply echo_env u eng = Inr (r, e1)"
    using echo_turn by blast
  have l1: "length (dialog_history e1) = min 64 (Suc (length (dialog_history eng)))"
    by (simp add: turn_history(1) [OF g] deque_append_len)
  have m1: "max_mid (memory e1) = max_mid (memory eng)"
    by (rule turn_history(2) [OF g])
  have "length (dialog_history e1) \<le> 64"
    by (simp add: l1)
  from Suc.IH [OF this] obtain e where
    run: "run_turns (replicate n (echo_env, u)) e1 = Inr e"
    and len: "length (dialog_history e) = min 64 (length (dialog_history e1) + n)"
    and cap: "max_mid (memory e) = max_mid (memory e1)"
    and mid: "(\<forall>k<n. min 64 (length (dialog_history e1) + Suc k) mod 6 \<noteq> 0)
          \<longrightarrow> mid_term (memory e) = mid_term (memory e1)"
    by blast
  have a: "run_turns (replicate (Suc n) (echo_env, u)) eng = Inr e"
    by (simp add: g run)
  have b: "length (dialog_history e) = min 64 (length (dialog_history eng) + Suc n)"
    using len l1 Suc.prems by simp
  have c: "max_mid (memory e) = max_mid (memory eng)"
    using cap m1 by simp
  have d: "(\<forall>k<Suc n. min 64 (length (dialog_history eng) + Suc k) mod 6 \<noteq> 0)
          \<longrightarrow> mid_term (memory e) = mid_term (memory eng)"
  proof
    assume q: "\<forall>k<Suc n. min 64 (length (dialog_history eng) + Suc k) mod 6 \<noteq> 0"
    then have "min 64 (Suc (length (dialog_history eng))) mod 6 \<noteq> 0"
      by (metis add_Suc_right add_0_right zero_less_Suc)
    then have first: "mid_term (memory e1) = mid_term (memory eng)"
      by (rule turn_without_summary [OF g])
    have "\<forall>k<n. min 64 (length (dialog_history e1) + Suc k) mod 6 \<noteq> 0"
    proof (intro allI impI)
      fix k assume "k < n"
      then have "min 64 (length (dialog_history eng) + Suc (Suc k)) mod 6 \<noteq> 0"
        using q by (metis Suc_less_eq)
      moreover have "min 64 (length (dialog_history e1) + Suc k)
          = min 64 (length (dialog_history eng) + Suc (Suc k))"
        using l1 by simp
      ultimately show "min 64 (length (dialog_history e1) + Suc k) mod 6 \<noteq> 0"
        by simp
    qed
    with mid first show "mid_term (memory e) = mid_term (memory eng)"
      by simp
  qed
  from a b c d show ?case by blast
qed

lemma fresh_engine:
  "dialog_history (Engine_init f) = []"
  "max_mid (memory (Engine_init f)) = 64"
  "mid_term (memory (Engine_init None)) = []"
  by (simp_all add: Engine_init_def init_as_fold fold_load_frame empty_store_def lines_read_def)

text \<open>
  C6. On a fresh engine with the stub of the demo, which returns non-empty text on every
  call: the sixth turn adds one summary entry to an empty \<open>mid_term\<close>; after 65 turns the
  history holds 64 entries, the 66th turn leaves it at 64, which is not a multiple of 6,
  and adds no summary entry although 66 is a multiple of 6.
\<close>

theorem summary_hook_stops_after_64_turns:
  "\<exists>e5 r6 e6 e65 r66 e66.
      run_turns (replicate 5 (echo_env, py ''hi'')) (Engine_init None) = Inr e5
    \<and> generate_reply echo_env (py ''hi'') e5 = Inr (r6, e6)
    \<and> mid_term (memory e5) = []
    \<and> length (mid_term (memory e6)) = 1
    \<and> run_turns (replicate 65 (echo_env, py ''hi'')) (Engine_init None) = Inr e65
    \<and> generate_reply echo_env (py ''hi'') e65 = Inr (r66, e66)
    \<and> length (dialog_history e65) = 64
    \<and> length (dialog_history e66) = 64
    \<and> mid_term (memory e66) = mid_term (memory e65)"
proof -
  let ?u = "py ''hi''"
  let ?fresh = "Engine_init None"
  have fresh_len: "length (dialog_history ?fresh) \<le> 64"
    by (simp add: fresh_engine)
  from echo_run [OF fresh_len, of 5 ?u] obtain e5 where
    h5: "run_turns (replicate 5 (echo_env, ?u)) ?fresh = Inr e5
     \<and> length (dialog_history e5) = min 64 (length (dialog_history ?fresh) + 5)
     \<and> max_mid (memory e5) = max_mid (memory ?fresh)
     \<and> ((\<forall>k<5. min 64 (length (dialog_history ?fresh) + Suc k) mod 6 \<noteq> 0)
          \<longrightarrow> mid_term (memory e5) = mid_term (memory ?fresh))" ..
  from h5 have r5: "run_turns (replicate 5 (echo_env, ?u)) ?fresh = Inr e5"
    by (rule conjunct1)
  from h5 have l5': "length (dialog_history e5) = min 64 (length (dialog_history ?fresh) + 5)"
    by (rule conjunct2 [THEN conjunct1])
  from h5 have c5': "max_mid (memory e5) = max_mid (memory ?fresh)"
    by (rule conjunct2 [THEN conjunct2, THEN conjunct1])
  from h5 have m5': "(\<forall>k<5. min 64 (length (dialog_history ?fresh) + Suc k) mod 6 \<noteq> 0)
          \<longrightarrow> mid_term (memory e5) = mid_term (memory ?fresh)"
    by (rule conjunct2 [THEN conjunct2, THEN conjunct2])
  from l5' have l5: "length (dialog_history e5) = 5"
    by (simp add: fresh_engine)
  from c5' have c5: "max_mid (memory e5) = 64"
    by (simp only: fresh_engine)
  from m5' have m5: "(\<forall>k<5. min 64 (Suc k) mod 6 \<noteq> 0) \<longrightarrow> mid_term (memory e5) = []"
    by (simp only: fresh_engine list.size add_0)
  have "\<forall>k<5. min 64 (Suc k) mod 6 \<noteq> (0::nat)"
  proof (intro allI impI)
    fix k :: nat
    assume k: "k < 5"
    then have "min 64 (Suc k) = Suc k"
      by simp
    moreover from k have "Suc k mod 6 = Suc k"
      by simp
    ultimately show "min 64 (Suc k) mod 6 \<noteq> 0"
      by simp
  qed
  with m5 have mid5: "mid_term (memory e5) = []"
    by (rule mp)
  obtain r6 e6 where g6: "generate_reply echo_env ?u e5 = Inr (r6, e6)"
    using echo_turn by blast
  have "min 64 (Suc (length (dialog_history e5))) mod 6 = 0"
    by (simp add: l5)
  from turn_with_summary [OF g6 this] have mid6: "length (mid_term (memory e6)) = 1"
    by (auto simp: mid5 c5 deque_append_def)
  from echo_run [OF fresh_len, of 65 ?u] obtain e65 where
    h65: "run_turns (replicate 65 (echo_env, ?u)) ?fresh = Inr e65
     \<and> length (dialog_history e65) = min 64 (length (dialog_history ?fresh) + 65)
     \<and> max_mid (memory e65) = max_mid (memory ?fresh)
     \<and> ((\<forall>k<65. min 64 (length (dialog_history ?fresh) + Suc k) mod 6 \<noteq> 0)
          \<longrightarrow> mid_term (memory e65) = mid_term (memory ?fresh))" ..
  from h65 have r65: "run_turns (replicate 65 (echo_env, ?u)) ?fresh = Inr e65"
    by (rule conjunct1)
  from h65 have l65': "length (dialog_history e65) = min 64 (length (dialog_history ?fresh) + 65)"
    by (rule conjunct2 [THEN conjunct1])
  from l65' have l65: "length (dialog_history e65) = 64"
    by (simp add: fresh_engine)
  obtain r66 e66 where g66: "generate_reply echo_env ?u e65 = Inr (r66, e66)"
    using echo_turn by blast
  have l66: "length (dialog_history e66) = 64"
    by (simp add: turn_history(1) [OF g66] deque_append_len l65)
  have "min 64 (Suc (length (dialog_history e65))) mod 6 \<noteq> 0"
    by (simp add: l65)
  then have mid66: "mid_term (memory e66) = mid_term (memory e65)"
    by (rule turn_without_summary [OF g66])
  show ?thesis
    by (intro exI conjI) (rule r5 g6 mid5 mid6 r65 g66 l65 l66 mid66)+
qed

end
